theory Spec2Isabelle
  imports Main "HOL-Library.AList"
begin

section \<open>Python values\<close>

text \<open>
  The values that flow through \<^verbatim>\<open>asana.py\<close>: what the JSON decoder returns and what a
  caller passes as an id, a name or a payload entry. \<open>PInt i\<close> is the integer \<open>i\<close> as
  a literal or the decoder gives it: an object of class \<^verbatim>\<open>int\<close> when \<open>i\<close> lies within
  the platform's \<^verbatim>\<open>sys.maxint\<close>, and of class \<^verbatim>\<open>long\<close> beyond it (\<open>is_int\<close> below; a
  \<^verbatim>\<open>long\<close> of small value, \<^verbatim>\<open>5L\<close>, is not among the values). \<^verbatim>\<open>str\<close> and \<^verbatim>\<open>unicode\<close> are
  two constructors (texts are taken to be ASCII, so that a \<^verbatim>\<open>str\<close> and a \<^verbatim>\<open>unicode\<close> of
  the same text are equal). A float is carried as the text \<^verbatim>\<open>str()\<close> gives for it: the
  library never computes with one. A dict is an association list with string keys.
\<close>

datatype pyval =
    PNone
  | PBool bool
  | PInt int
  | PFloat string
  | PStr string
  | PUnicode string
  | PList "pyval list"
  | PDict "(string \<times> pyval) list"


text \<open>Truth value of an object in a condition (\<^verbatim>\<open>if x:\<close>, \<^verbatim>\<open>x and y\<close>).\<close>

fun truthy :: "pyval \<Rightarrow> bool" where
  "truthy PNone = False"
| "truthy (PBool b) = b"
| "truthy (PInt i) = (i \<noteq> 0)"
| "truthy (PFloat s) = (s \<noteq> ''0.0'' \<and> s \<noteq> ''-0.0'')"
| "truthy (PStr s) = (s \<noteq> [])"
| "truthy (PUnicode s) = (s \<noteq> [])"
| "truthy (PList xs) = (xs \<noteq> [])"
| "truthy (PDict d) = (d \<noteq> [])"

text \<open>\<^verbatim>\<open>sep.join(xs)\<close>\<close>

fun join :: "string \<Rightarrow> string list \<Rightarrow> string" where
  "join sep [] = []"
| "join sep [x] = x"
| "join sep (x # y # ys) = x @ sep @ join sep (y # ys)"

text \<open>Decimal text of an integer, as \<^verbatim>\<open>str\<close> and \<^verbatim>\<open>%s\<close> give it.\<close>

definition digit_char :: "nat \<Rightarrow> char" where
  "digit_char d = ''0123456789'' ! (d mod 10)"

fun digits :: "nat \<Rightarrow> string" where
  "digits n = (if n < 10 then [digit_char n] else digits (n div 10) @ [digit_char (n mod 10)])"

declare digits.simps [simp del]

definition str_int :: "int \<Rightarrow> string" where
  "str_int i = (if i < 0 then ''-'' @ digits (nat (- i)) else digits (nat i))"

text \<open>
  \<^verbatim>\<open>repr\<close> and \<^verbatim>\<open>str\<close>. The library applies \<^verbatim>\<open>str\<close> and \<^verbatim>\<open>%s\<close> to ids, status codes
  and server messages, which are integers and strings; the text of a container is
  given in Python's layout, with a string quoted as it stands (escapes inside a quoted
  string, and the \<^verbatim>\<open>L\<close> that \<^verbatim>\<open>repr\<close> puts after a \<^verbatim>\<open>long\<close>, are not rendered).
\<close>

definition quote :: "string \<Rightarrow> string" where
  "quote s = [CHR 0x27] @ s @ [CHR 0x27]"

fun py_repr :: "pyval \<Rightarrow> string" where
  "py_repr PNone = ''None''"
| "py_repr (PBool b) = (if b then ''True'' else ''False'')"
| "py_repr (PInt i) = str_int i"
| "py_repr (PFloat s) = s"
| "py_repr (PStr s) = quote s"
| "py_repr (PUnicode s) = ''u'' @ quote s"
| "py_repr (PList xs) = ''['' @ join '', '' (map py_repr xs) @ '']''"
| "py_repr (PDict d) =
     ''{'' @ join '', '' (map (\<lambda>kv. quote (fst kv) @ '': '' @ py_repr (snd kv)) d) @ ''}''"

definition py_str :: "pyval \<Rightarrow> string" where
  "py_str v = (case v of PStr s \<Rightarrow> s | PUnicode s \<Rightarrow> s | _ \<Rightarrow> py_repr v)"

text \<open>\<^verbatim>\<open>s.replace(a, b)\<close> for a one-character \<^verbatim>\<open>a\<close>.\<close>

definition replace :: "char \<Rightarrow> string \<Rightarrow> string \<Rightarrow> string" where
  "replace a b s = concat (map (\<lambda>c. if c = a then b else [c]) s)"

text \<open>\<^verbatim>\<open>s.split(c)\<close>: the pieces between the occurrences of \<^verbatim>\<open>c\<close>; never empty.\<close>

fun split :: "char \<Rightarrow> string \<Rightarrow> string list" where
  "split c [] = [[]]"
| "split c (x # xs) =
     (if x = c then [] # split c xs
      else (case split c xs of p # ps \<Rightarrow> (x # p) # ps | [] \<Rightarrow> [[x]]))"

text \<open>The text of a string object, and \<^verbatim>\<open>x in xs\<close> for a list \<^verbatim>\<open>xs\<close> of \<^verbatim>\<open>str\<close> literals.\<close>

fun text_of :: "pyval \<Rightarrow> string option" where
  "text_of (PStr s) = Some s"
| "text_of (PUnicode s) = Some s"
| "text_of _ = None"

definition in_list :: "pyval \<Rightarrow> string list \<Rightarrow> bool" where
  "in_list x xs = (case text_of x of None \<Rightarrow> False | Some s \<Rightarrow> s \<in> set xs)"

section \<open>The data model\<close>

text \<open>\<^verbatim>\<open>datetime.datetime\<close>\<close>

record datetime =
  year :: int
  month :: int
  day :: int
  hour :: int
  minute :: int
  second :: int
  microsecond :: int

text \<open>\<^verbatim>\<open>AsanaClient\<close>: the fields its constructor sets.\<close>

record api =
  asana_url :: string
  api_version :: string
  aurl :: string
  api_key :: string
  debug :: bool

definition AsanaClient_init :: "string \<Rightarrow> bool \<Rightarrow> api" where
  "AsanaClient_init key dbg =
     \<lparr> asana_url = ''https://app.asana.com/api'',
       api_version = ''1.0'',
       aurl = join ''/'' [''https://app.asana.com/api'', ''1.0''],
       api_key = key,
       debug = dbg \<rparr>"

text \<open>
  The six resource classes. Each record holds the attributes the class's
  \<^verbatim>\<open>__init__\<close> assigns, in its order; \<^verbatim>\<open>self._id\<close> of class Task is \<open>t_id\<close>, and so on.
\<close>

record user =
  u_api :: api
  u_resrc :: string
  u_name :: pyval
  u_email :: pyval
  u_id :: pyval

record workspace =
  ws_api :: api
  ws_resrc :: string
  ws_id :: pyval
  ws_name :: pyval

record task =
  t_api :: api
  t_resrc :: string
  t_id :: pyval
  t_name :: pyval
  t_notes :: pyval
  t_assignee_status :: pyval
  t_created_at :: datetime
  t_modified_at :: datetime
  t_completed_at :: "datetime option"
  t_completed :: pyval
  t_due_on :: pyval
  t_tags :: pyval
  t_projects :: pyval
  t_workspace :: "workspace option"

record tag =
  tg_api :: api
  tg_resrc :: string
  tg_id :: pyval
  tg_name :: pyval
  tg_notes :: pyval
  tg_created_at :: datetime
  tg_workspace :: "workspace option"

record project =
  pr_api :: api
  pr_resrc :: string
  pr_id :: pyval
  pr_name :: pyval
  pr_notes :: pyval
  pr_archived :: pyval
  pr_created_at :: datetime
  pr_modified_at :: datetime
  pr_workspace :: "workspace option"

record story =
  st_api :: api
  st_resrc :: string
  st_id :: pyval
  st_text :: pyval
  st_source :: pyval
  st_story_type :: pyval
  st_created_at :: datetime

text \<open>An argument of a method that takes any object: a plain value or a resource.\<close>

datatype pyobj =
    Val pyval
  | UserObj user
  | WorkspaceObj workspace
  | TaskObj task
  | TagObj tag
  | ProjectObj project
  | StoryObj story

section \<open>Errors\<close>

text \<open>
  \<^verbatim>\<open>AsanaError\<close> is the library's one exception class; it carries its message and
  the further arguments it was raised with. The others are the Python exceptions the
  code can run into.
\<close>

datatype error =
    AsanaError string "pyobj list"
  | KeyError
  | IndexError
  | TypeError
  | AttributeError
  | ValueError
  | NameError
  | UnboundLocalError

text \<open>\<^verbatim>\<open>v['key']\<close> with a string key.\<close>

fun get_key :: "pyval \<Rightarrow> string \<Rightarrow> error + pyval" where
  "get_key (PDict d) k = (case map_of d k of None \<Rightarrow> Inl KeyError | Some v \<Rightarrow> Inr v)"
| "get_key _ k = Inl TypeError"

text \<open>\<^verbatim>\<open>v[i]\<close> with an integer index; a negative index counts from the end.\<close>

definition index :: "'a list \<Rightarrow> int \<Rightarrow> error + 'a" where
  "index xs i =
     (if 0 \<le> i \<and> i < int (length xs) then Inr (xs ! nat i)
      else if i < 0 \<and> - int (length xs) \<le> i then Inr (xs ! nat (int (length xs) + i))
      else Inl IndexError)"

fun get_idx :: "pyval \<Rightarrow> int \<Rightarrow> error + pyval" where
  "get_idx (PList xs) i = index xs i"
| "get_idx (PStr s) i = (case index s i of Inl e \<Rightarrow> Inl e | Inr c \<Rightarrow> Inr (PStr [c]))"
| "get_idx (PUnicode s) i =
     (case index s i of Inl e \<Rightarrow> Inl e | Inr c \<Rightarrow> Inr (PUnicode [c]))"
| "get_idx (PDict d) i = Inl KeyError"
| "get_idx _ i = Inl TypeError"

text \<open>\<^verbatim>\<open>for elt in v\<close>: the elements a comprehension runs over.\<close>

fun iter :: "pyval \<Rightarrow> error + pyval list" where
  "iter (PList xs) = Inr xs"
| "iter (PDict d) = Inr (map (\<lambda>kv. PUnicode (fst kv)) d)"
| "iter (PStr s) = Inr (map (\<lambda>c. PStr [c]) s)"
| "iter (PUnicode s) = Inr (map (\<lambda>c. PUnicode [c]) s)"
| "iter _ = Inl TypeError"

section \<open>The transport layer\<close>

datatype http_method = GET | POST | PUT

record request =
  rq_method :: http_method
  rq_url :: string
  rq_auth :: "string \<times> string"
  rq_data :: "(string \<times> pyval) list option"

text \<open>
  What the code reads of a \<^verbatim>\<open>requests\<close> response: \<^verbatim>\<open>r.status_code\<close>,
  \<^verbatim>\<open>r.headers\<close> (keys in lower case) and \<^verbatim>\<open>r.json\<close>, the decoded body, which is
  \<^verbatim>\<open>None\<close> when the body is not JSON.
\<close>

record response =
  status_code :: int
  headers :: "(string \<times> string) list"
  json :: pyval

text \<open>
  What lies outside the library: the server, which answers a request knowing the
  requests sent before it, \<^verbatim>\<open>datetime.datetime.strptime\<close> (\<open>None\<close> is its
  \<^verbatim>\<open>ValueError\<close>), and the platform's \<^verbatim>\<open>sys.maxint\<close>. Every operation takes the list
  of requests sent so far and returns it extended, beside its result or the exception
  it raised.
\<close>

record env =
  respond :: "request list \<Rightarrow> request \<Rightarrow> response"
  strptime :: "string \<Rightarrow> string \<Rightarrow> datetime option"
  maxint :: int

type_synonym 'a io = "request list \<Rightarrow> (error + 'a) \<times> request list"

text \<open>\<^verbatim>\<open>r.json['errors'][0][field]\<close>\<close>

definition error_field :: "response \<Rightarrow> string \<Rightarrow> error + pyval" where
  "error_field r field =
     (case get_key (json r) ''errors'' of Inl e \<Rightarrow> Inl e | Inr es \<Rightarrow>
      case get_idx es 0 of Inl e \<Rightarrow> Inl e | Inr e0 \<Rightarrow> get_key e0 field)"

text \<open>
  \<^verbatim>\<open>_check_http_status\<close>. In the branch for status 500 the message is built from
  the name \<^verbatim>\<open>ph\<close>, which is bound nowhere: evaluating it raises \<^verbatim>\<open>NameError\<close> before
  any \<^verbatim>\<open>AsanaError\<close> exists. A status outside the two lists falls off the end of the
  function, which returns.
\<close>

definition check_http_status :: "response \<Rightarrow> error + unit" where
  "check_http_status r =
     (let sc = status_code r in
      if sc = 200 \<or> sc = 201 then Inr ()
      else
        (case error_field r ''message'' of Inl e \<Rightarrow> Inl e | Inr error_message \<Rightarrow>
           if sc \<in> set [400, 401, 403, 404, 429] then
             Inl (AsanaError (''Error: HTTP Status '' @ py_str (PInt sc) @ '': ''
                              @ py_str error_message) [])
           else if sc = 500 then
             (case error_field r ''phrase'' of Inl e \<Rightarrow> Inl e | Inr phrase \<Rightarrow>
                Inl NameError)
           else Inr ()))"

text \<open>\<^verbatim>\<open>str(r)\<close> of a response.\<close>

definition str_response :: "response \<Rightarrow> string" where
  "str_response r = ''<Response ['' @ py_str (PInt (status_code r)) @ '']>''"

definition handle_response :: "response \<Rightarrow> error + pyval" where
  "handle_response r =
     (case map_of (headers r) ''content-type'' of
        None \<Rightarrow> Inl KeyError
      | Some ct \<Rightarrow>
          (case index (split CHR '';'' ct) 0 of
             Inl e \<Rightarrow> Inl e
           | Inr t \<Rightarrow>
               if t = ''application/json'' then get_key (json r) ''data''
               else Inl (AsanaError (''Did not receive json from api: '' @ str_response r) [])))"

definition target :: "api \<Rightarrow> string \<Rightarrow> pyval \<Rightarrow> string" where
  "target a resource endpoint =
     (let t = join ''/'' [aurl a, resource]
      in if truthy endpoint then join ''/'' [t, py_str endpoint] else t)"

text \<open>
  \<^verbatim>\<open>get\<close>, \<^verbatim>\<open>post\<close> and \<^verbatim>\<open>put\<close> build their request the same way
  (\<open>request_of\<close>; \<^verbatim>\<open>get\<close> passes no \<^verbatim>\<open>data\<close>) and treat the response the same way
  (\<open>send\<close>: the call of \<^verbatim>\<open>requests\<close>, then the status check, then the header check).
  The \<^verbatim>\<open>debug\<close> printing is left out.
\<close>

definition request_of ::
  "http_method \<Rightarrow> api \<Rightarrow> string \<Rightarrow> pyval \<Rightarrow> (string \<times> pyval) list option \<Rightarrow> request" where
  "request_of m a resource endpoint data =
     \<lparr> rq_method = m, rq_url = target a resource endpoint,
       rq_auth = (api_key a, []), rq_data = data \<rparr>"

definition send :: "env \<Rightarrow> request \<Rightarrow> pyval io" where
  "send E rq w =
     (let r = respond E w rq; w' = w @ [rq]
      in case check_http_status r of
           Inl e \<Rightarrow> (Inl e, w')
         | Inr _ \<Rightarrow> (handle_response r, w'))"

definition get :: "env \<Rightarrow> api \<Rightarrow> string \<Rightarrow> pyval \<Rightarrow> pyval io" where
  "get E a resource endpoint = send E (request_of GET a resource endpoint None)"

definition post :: "env \<Rightarrow> api \<Rightarrow> string \<Rightarrow> pyval \<Rightarrow> (string \<times> pyval) list \<Rightarrow> pyval io" where
  "post E a resource endpoint data = send E (request_of POST a resource endpoint (Some data))"

definition put :: "env \<Rightarrow> api \<Rightarrow> string \<Rightarrow> pyval \<Rightarrow> (string \<times> pyval) list \<Rightarrow> pyval io" where
  "put E a resource endpoint data = send E (request_of PUT a resource endpoint (Some data))"

text \<open>Sequencing: an exception ends the run and keeps the requests sent so far.\<close>

definition ok :: "'a \<Rightarrow> 'a io" where
  "ok x w = (Inr x, w)"

definition raise :: "error \<Rightarrow> 'a io" where
  "raise e w = (Inl e, w)"

definition of_result :: "error + 'a \<Rightarrow> 'a io" where
  "of_result r w = (r, w)"

definition and_then :: "'a io \<Rightarrow> ('a \<Rightarrow> 'b io) \<Rightarrow> 'b io" where
  "and_then m f w = (case m w of (Inl e, w') \<Rightarrow> (Inl e, w') | (Inr x, w') \<Rightarrow> f x w')"

text \<open>A list comprehension \<^verbatim>\<open>[f(elt) for elt in xs]\<close> whose \<^verbatim>\<open>f\<close> sends requests.\<close>

fun for_each :: "('a \<Rightarrow> 'b io) \<Rightarrow> 'a list \<Rightarrow> 'b list io" where
  "for_each f [] w = (Inr [], w)"
| "for_each f (x # xs) w =
     (case f x w of
        (Inl e, w') \<Rightarrow> (Inl e, w')
      | (Inr y, w') \<Rightarrow>
          (case for_each f xs w' of
             (Inl e, w'') \<Rightarrow> (Inl e, w'')
           | (Inr ys, w'') \<Rightarrow> (Inr (y # ys), w'')))"

section \<open>The resource layer: constructors\<close>

text \<open>\<^verbatim>\<open>AsanaResource._utcstr_to_datetime\<close>\<close>

definition utcstr_to_datetime :: "env \<Rightarrow> pyval \<Rightarrow> error + datetime" where
  "utcstr_to_datetime E timestamp =
     (case text_of timestamp of
        Some s \<Rightarrow>
          (case strptime E (replace CHR ''Z'' [] (replace CHR ''T'' '' '' s))
                  ''%Y-%m-%d %H:%M:%S.%f'' of
             None \<Rightarrow> Inl ValueError
           | Some d \<Rightarrow> Inr d)
      | None \<Rightarrow> Inl AttributeError)"

definition User_init :: "env \<Rightarrow> api \<Rightarrow> pyval \<Rightarrow> user io" where
  "User_init E a user_id =
     and_then (get E a ''users'' user_id) (\<lambda>jr.
     and_then (of_result (get_key jr ''name'')) (\<lambda>name.
     and_then (of_result (get_key jr ''email'')) (\<lambda>email.
     and_then (of_result (get_key jr ''id'')) (\<lambda>i.
     ok \<lparr> u_api = a, u_resrc = ''users'', u_name = name, u_email = email, u_id = i \<rparr>))))"

definition Workspace_init :: "env \<Rightarrow> api \<Rightarrow> pyval \<Rightarrow> workspace io" where
  "Workspace_init E a workspace_id =
     and_then (get E a ''workspaces'' workspace_id) (\<lambda>jr.
     and_then (of_result (get_key jr ''id'')) (\<lambda>i.
     and_then (of_result (get_key jr ''name'')) (\<lambda>name.
     ok \<lparr> ws_api = a, ws_resrc = ''workspaces'', ws_id = i, ws_name = name \<rparr>)))"

text \<open>\<^verbatim>\<open>dict(pairs)\<close>: a later pair replaces an earlier one with the same key.\<close>

definition dict :: "(string \<times> pyval) list \<Rightarrow> (string \<times> pyval) list" where
  "dict pairs = foldl (\<lambda>d kv. AList.update (fst kv) (snd kv) d) [] pairs"

text \<open>
  \<^verbatim>\<open>Task.__init__\<close>, in two steps: the argument checks and the request that binds
  \<^verbatim>\<open>jr\<close>, then the attributes read from \<^verbatim>\<open>jr\<close>. \<open>kwargs\<close> is the dictionary of the
  keyword arguments other than \<^verbatim>\<open>task_id\<close>, \<^verbatim>\<open>workspace_id\<close> and \<^verbatim>\<open>parent_id\<close>.
\<close>

definition Task_fetch ::
  "env \<Rightarrow> api \<Rightarrow> pyval \<Rightarrow> pyval \<Rightarrow> pyval \<Rightarrow> (string \<times> pyval) list \<Rightarrow> pyval io" where
  "Task_fetch E a task_id workspace_id parent_id kwargs =
     (if (truthy task_id \<and> truthy workspace_id) \<or>
         (truthy workspace_id \<and> truthy parent_id) \<or>
         (truthy task_id \<and> truthy parent_id)
      then raise (AsanaError
        ''A Task must be created with exactly one of task_id, workspace_id, or parent_id'' [])
      else if truthy task_id \<and> kwargs \<noteq> [] then raise (AsanaError ''Bad arguments'' [])
      else if truthy task_id then get E a ''tasks'' task_id
      else if truthy workspace_id then
        post E a ''tasks'' (PStr []) (dict ((''workspace'', workspace_id) # kwargs))
      else if truthy parent_id then
        post E a ''tasks'' (PStr (py_str parent_id @ ''/subtasks'')) kwargs
      else raise (AsanaError ''Bug encountered.'' []))"

definition Task_init ::
  "env \<Rightarrow> api \<Rightarrow> pyval \<Rightarrow> pyval \<Rightarrow> pyval \<Rightarrow> (string \<times> pyval) list \<Rightarrow> task io" where
  "Task_init E a task_id workspace_id parent_id kwargs =
     and_then (Task_fetch E a task_id workspace_id parent_id kwargs) (\<lambda>jr.
     and_then (of_result (get_key jr ''id'')) (\<lambda>i.
     and_then (of_result (get_key jr ''name'')) (\<lambda>name.
     and_then (of_result (get_key jr ''notes'')) (\<lambda>notes.
     and_then (of_result (get_key jr ''assignee_status'')) (\<lambda>assignee_status.
     and_then (of_result (get_key jr ''created_at'')) (\<lambda>c.
     and_then (of_result (utcstr_to_datetime E c)) (\<lambda>created_at.
     and_then (of_result (get_key jr ''modified_at'')) (\<lambda>m.
     and_then (of_result (utcstr_to_datetime E m)) (\<lambda>modified_at.
     and_then (of_result (get_key jr ''completed_at'')) (\<lambda>d.
     and_then (if truthy d
               then and_then (of_result (utcstr_to_datetime E d)) (\<lambda>x. ok (Some x))
               else ok None) (\<lambda>completed_at.
     and_then (of_result (get_key jr ''completed'')) (\<lambda>completed.
     and_then (of_result (get_key jr ''due_on'')) (\<lambda>due_on.
     and_then (of_result (get_key jr ''tags'')) (\<lambda>tags.
     and_then (of_result (get_key jr ''projects'')) (\<lambda>projects.
     ok \<lparr> t_api = a, t_resrc = ''tasks'', t_id = i, t_name = name, t_notes = notes,
          t_assignee_status = assignee_status, t_created_at = created_at,
          t_modified_at = modified_at, t_completed_at = completed_at,
          t_completed = completed, t_due_on = due_on, t_tags = tags,
          t_projects = projects, t_workspace = None \<rparr>)))))))))))))))"

text \<open>
  \<^verbatim>\<open>Tag.__init__\<close>. The \<^verbatim>\<open>if\<close>/\<^verbatim>\<open>elif\<close> chain has no \<^verbatim>\<open>else\<close>: with neither id the
  local \<^verbatim>\<open>jr\<close> is never bound (\<open>None\<close> here), and reading it raises
  \<^verbatim>\<open>UnboundLocalError\<close>.
\<close>

definition Tag_fetch ::
  "env \<Rightarrow> api \<Rightarrow> pyval \<Rightarrow> pyval \<Rightarrow> pyval \<Rightarrow> pyval \<Rightarrow> pyval option io" where
  "Tag_fetch E a tag_id workspace_id name notes =
     (if truthy tag_id \<and> truthy workspace_id
      then raise (AsanaError ''Requires a tag_id or workspace_id (not both).'' [])
      else if (truthy workspace_id \<and> truthy tag_id) \<or>
              (truthy tag_id \<and> (truthy name \<or> truthy notes))
      then raise (AsanaError ''Bad Arguments.'' [])
      else if truthy tag_id then and_then (get E a ''tags'' tag_id) (\<lambda>jr. ok (Some jr))
      else if truthy workspace_id then
        (let payload = [(''workspace'', workspace_id)];
             payload = (if truthy name then AList.update ''name'' name payload else payload);
             payload = (if truthy notes then AList.update ''notes'' notes payload else payload)
         in and_then (post E a ''tags'' (PStr []) payload) (\<lambda>jr. ok (Some jr)))
      else ok None)"

definition unbound :: "pyval option \<Rightarrow> pyval io" where
  "unbound jr = (case jr of None \<Rightarrow> raise UnboundLocalError | Some v \<Rightarrow> ok v)"

definition Tag_init :: "env \<Rightarrow> api \<Rightarrow> pyval \<Rightarrow> pyval \<Rightarrow> pyval \<Rightarrow> pyval \<Rightarrow> tag io" where
  "Tag_init E a tag_id workspace_id name notes =
     and_then (Tag_fetch E a tag_id workspace_id name notes) (\<lambda>bound.
     and_then (unbound bound) (\<lambda>jr.
     and_then (of_result (get_key jr ''id'')) (\<lambda>i.
     and_then (of_result (get_key jr ''name'')) (\<lambda>name'.
     and_then (of_result (get_key jr ''notes'')) (\<lambda>notes'.
     and_then (of_result (get_key jr ''created_at'')) (\<lambda>c.
     and_then (of_result (utcstr_to_datetime E c)) (\<lambda>created_at.
     ok \<lparr> tg_api = a, tg_resrc = ''tags'', tg_id = i, tg_name = name', tg_notes = notes',
          tg_created_at = created_at, tg_workspace = None \<rparr>)))))))"

text \<open>\<^verbatim>\<open>Project.__init__\<close>, with the same missing \<^verbatim>\<open>else\<close>.\<close>

definition Project_fetch ::
  "env \<Rightarrow> api \<Rightarrow> pyval \<Rightarrow> pyval \<Rightarrow> pyval \<Rightarrow> pyval \<Rightarrow> pyval \<Rightarrow> pyval option io" where
  "Project_fetch E a project_id workspace_id name notes archived =
     (if truthy project_id \<and> truthy workspace_id
      then raise (AsanaError ''Bad Arguments'' [])
      else if truthy project_id \<and> (truthy name \<or> truthy notes \<or> truthy archived)
      then raise (AsanaError ''Bad Arguments'' [])
      else if truthy project_id then
        and_then (get E a ''projects'' project_id) (\<lambda>jr. ok (Some jr))
      else if truthy workspace_id then
        (let payload = [(''workspace'', workspace_id)];
             payload = (if truthy name then AList.update ''name'' name payload else payload);
             payload = (if truthy notes then AList.update ''notes'' notes payload else payload);
             payload = (if truthy archived then AList.update ''archived'' archived payload
                        else payload)
         in and_then (post E a ''projects'' (PStr []) payload) (\<lambda>jr. ok (Some jr)))
      else ok None)"

definition Project_init ::
  "env \<Rightarrow> api \<Rightarrow> pyval \<Rightarrow> pyval \<Rightarrow> pyval \<Rightarrow> pyval \<Rightarrow> pyval \<Rightarrow> project io" where
  "Project_init E a project_id workspace_id name notes archived =
     and_then (Project_fetch E a project_id workspace_id name notes archived) (\<lambda>bound.
     and_then (unbound bound) (\<lambda>jr.
     and_then (of_result (get_key jr ''id'')) (\<lambda>i.
     and_then (of_result (get_key jr ''name'')) (\<lambda>name'.
     and_then (of_result (get_key jr ''notes'')) (\<lambda>notes'.
     and_then (of_result (get_key jr ''archived'')) (\<lambda>archived'.
     and_then (of_result (get_key jr ''created_at'')) (\<lambda>c.
     and_then (of_result (utcstr_to_datetime E c)) (\<lambda>created_at.
     and_then (of_result (get_key jr ''modified_at'')) (\<lambda>m.
     and_then (of_result (utcstr_to_datetime E m)) (\<lambda>modified_at.
     ok \<lparr> pr_api = a, pr_resrc = ''projects'', pr_id = i, pr_name = name',
          pr_notes = notes', pr_archived = archived', pr_created_at = created_at,
          pr_modified_at = modified_at, pr_workspace = None \<rparr>))))))))))"

definition Story_init :: "env \<Rightarrow> api \<Rightarrow> pyval \<Rightarrow> story io" where
  "Story_init E a story_id =
     and_then (get E a ''stories'' story_id) (\<lambda>jr.
     and_then (of_result (get_key jr ''id'')) (\<lambda>i.
     and_then (of_result (get_key jr ''text'')) (\<lambda>txt.
     and_then (of_result (get_key jr ''source'')) (\<lambda>source.
     and_then (of_result (get_key jr ''type'')) (\<lambda>story_type.
     and_then (of_result (get_key jr ''created_at'')) (\<lambda>c.
     and_then (of_result (utcstr_to_datetime E c)) (\<lambda>created_at.
     ok \<lparr> st_api = a, st_resrc = ''stories'', st_id = i, st_text = txt, st_source = source,
          st_story_type = story_type, st_created_at = created_at \<rparr>)))))))"

section \<open>The resource layer: relationship properties\<close>

text \<open>\<^verbatim>\<open>[C(self.api, elt['id']) for elt in v]\<close> for a constructor \<^verbatim>\<open>C\<close>.\<close>

definition wrap_each :: "(pyval \<Rightarrow> 'a io) \<Rightarrow> pyval \<Rightarrow> 'a list io" where
  "wrap_each ctor v =
     and_then (of_result (iter v))
       (for_each (\<lambda>elt. and_then (of_result (get_key elt ''id'')) ctor))"

definition User_workspaces :: "env \<Rightarrow> user \<Rightarrow> workspace list io" where
  "User_workspaces E self =
     and_then (get E (u_api self) (u_resrc self) (u_id self)) (\<lambda>jr.
     and_then (of_result (get_key jr ''workspaces''))
       (wrap_each (Workspace_init E (u_api self))))"

definition Task_parent :: "env \<Rightarrow> task \<Rightarrow> user option io" where
  "Task_parent E self =
     and_then (get E (t_api self) (t_resrc self) (t_id self)) (\<lambda>jr.
     and_then (of_result (get_key jr ''parent'')) (\<lambda>parent.
     if truthy parent then
       and_then (of_result (get_key parent ''id'')) (\<lambda>i.
       and_then (User_init E (t_api self) i) (\<lambda>u. ok (Some u)))
     else ok None))"

definition Task_workspace :: "env \<Rightarrow> task \<Rightarrow> workspace io" where
  "Task_workspace E self =
     and_then (get E (t_api self) (t_resrc self) (t_id self)) (\<lambda>jr.
     and_then (of_result (get_key jr ''workspace'')) (\<lambda>x.
     and_then (of_result (get_key x ''id'')) (Workspace_init E (t_api self))))"

definition Task_assignee :: "env \<Rightarrow> task \<Rightarrow> user option io" where
  "Task_assignee E self =
     and_then (get E (t_api self) (t_resrc self) (t_id self)) (\<lambda>jr.
     and_then (of_result (get_key jr ''assignee'')) (\<lambda>assignee.
     if truthy assignee then
       and_then (of_result (get_key assignee ''id'')) (\<lambda>i.
       and_then (User_init E (t_api self) i) (\<lambda>u. ok (Some u)))
     else ok None))"

definition Task_followers :: "env \<Rightarrow> task \<Rightarrow> user list io" where
  "Task_followers E self =
     and_then (get E (t_api self) (t_resrc self) (t_id self)) (\<lambda>jr.
     and_then (of_result (get_key jr ''followers'')) (\<lambda>followers.
     if truthy followers then wrap_each (User_init E (t_api self)) followers
     else ok []))"

definition Task_projects :: "env \<Rightarrow> task \<Rightarrow> project list io" where
  "Task_projects E self =
     and_then (get E (t_api self) (t_resrc self) (t_id self)) (\<lambda>jr.
     and_then (of_result (get_key jr ''projects'')) (\<lambda>projects.
     if truthy projects then
       wrap_each (\<lambda>i. Project_init E (t_api self) i PNone PNone PNone PNone) projects
     else ok []))"

definition Task_tags :: "env \<Rightarrow> task \<Rightarrow> tag list io" where
  "Task_tags E self =
     and_then (get E (t_api self) (t_resrc self) (PStr (py_str (t_id self) @ ''/tags'')))
       (wrap_each (\<lambda>i. Tag_init E (t_api self) i PNone PNone PNone))"

definition Task_subtasks :: "env \<Rightarrow> task \<Rightarrow> task list io" where
  "Task_subtasks E self =
     and_then (get E (t_api self) (t_resrc self) (PStr (py_str (t_id self) @ ''/subtasks'')))
       (wrap_each (\<lambda>i. Task_init E (t_api self) i PNone PNone []))"

definition Task_comments :: "env \<Rightarrow> task \<Rightarrow> story list io" where
  "Task_comments E self =
     and_then (get E (t_api self) (t_resrc self) (PStr (py_str (t_id self) @ ''/stories'')))
       (wrap_each (Story_init E (t_api self)))"

definition Workspace_users :: "env \<Rightarrow> workspace \<Rightarrow> user list io" where
  "Workspace_users E self =
     and_then (get E (ws_api self) (ws_resrc self) (PStr (py_str (ws_id self) @ ''/users'')))
       (wrap_each (User_init E (ws_api self)))"

definition Workspace_projects :: "env \<Rightarrow> workspace \<Rightarrow> project list io" where
  "Workspace_projects E self =
     and_then (get E (ws_api self) (ws_resrc self) (PStr (py_str (ws_id self) @ ''/projects'')))
       (wrap_each (\<lambda>i. Project_init E (ws_api self) i PNone PNone PNone PNone))"

definition Workspace_tags :: "env \<Rightarrow> workspace \<Rightarrow> tag list io" where
  "Workspace_tags E self =
     and_then (get E (ws_api self) (ws_resrc self) (PStr (py_str (ws_id self) @ ''/tags'')))
       (wrap_each (\<lambda>i. Tag_init E (ws_api self) i PNone PNone PNone))"

text \<open>
  The two memoized properties. An access returns its result, the instance as the
  access leaves it, and the requests sent. \<^verbatim>\<open>not self._workspace\<close> holds exactly while
  the attribute is \<^verbatim>\<open>None\<close>: a Workspace object is true.
\<close>

definition Tag_workspace ::
  "env \<Rightarrow> tag \<Rightarrow> request list \<Rightarrow> (error + workspace) \<times> tag \<times> request list" where
  "Tag_workspace E self w =
     (case tg_workspace self of
        Some cached \<Rightarrow> (Inr cached, self, w)
      | None \<Rightarrow>
          (case and_then (get E (tg_api self) (tg_resrc self) (tg_id self)) (\<lambda>jr.
                and_then (of_result (get_key jr ''workspace'')) (\<lambda>x.
                and_then (of_result (get_key x ''id'')) (Workspace_init E (tg_api self)))) w of
             (Inl e, w') \<Rightarrow> (Inl e, self, w')
           | (Inr ws, w') \<Rightarrow> (Inr ws, self\<lparr>tg_workspace := Some ws\<rparr>, w')))"

definition Tag_followers :: "env \<Rightarrow> tag \<Rightarrow> user list io" where
  "Tag_followers E self =
     and_then (get E (tg_api self) (tg_resrc self) (tg_id self)) (\<lambda>jr.
     and_then (of_result (get_key jr ''followers''))
       (wrap_each (User_init E (tg_api self))))"

definition Tag_tasks :: "env \<Rightarrow> tag \<Rightarrow> tag list io" where
  "Tag_tasks E self =
     and_then (get E (tg_api self) (tg_resrc self) (PStr (py_str (tg_id self) @ ''/tasks'')))
       (\<lambda>jr.
     and_then (of_result (get_key jr ''tasks''))
       (wrap_each (\<lambda>i. Tag_init E (tg_api self) i PNone PNone PNone)))"

definition Project_workspace ::
  "env \<Rightarrow> project \<Rightarrow> request list \<Rightarrow> (error + workspace) \<times> project \<times> request list" where
  "Project_workspace E self w =
     (case pr_workspace self of
        Some cached \<Rightarrow> (Inr cached, self, w)
      | None \<Rightarrow>
          (case and_then (get E (pr_api self) (pr_resrc self) (pr_id self)) (\<lambda>jr.
                and_then (of_result (get_key jr ''workspace'')) (\<lambda>x.
                and_then (of_result (get_key x ''id'')) (Workspace_init E (pr_api self)))) w of
             (Inl e, w') \<Rightarrow> (Inl e, self, w')
           | (Inr ws, w') \<Rightarrow> (Inr ws, self\<lparr>pr_workspace := Some ws\<rparr>, w')))"

definition Project_tasks :: "env \<Rightarrow> project \<Rightarrow> task list io" where
  "Project_tasks E self =
     and_then (get E (pr_api self) (pr_resrc self) (PStr (py_str (pr_id self) @ ''/tasks'')))
       (wrap_each (\<lambda>i. Task_init E (pr_api self) i PNone PNone []))"

definition Project_followers :: "env \<Rightarrow> project \<Rightarrow> user list io" where
  "Project_followers E self =
     and_then (get E (pr_api self) (pr_resrc self) (pr_id self)) (\<lambda>jr.
     and_then (of_result (get_key jr ''followers''))
       (wrap_each (User_init E (pr_api self))))"

definition Project_comments :: "env \<Rightarrow> project \<Rightarrow> story list io" where
  "Project_comments E self =
     and_then (get E (pr_api self) (pr_resrc self) (PStr (py_str (pr_id self) @ ''/stories'')))
       (wrap_each (Story_init E (pr_api self)))"

definition Story_created_by :: "env \<Rightarrow> story \<Rightarrow> user io" where
  "Story_created_by E self =
     and_then (get E (st_api self) (st_resrc self) (st_id self)) (\<lambda>jr.
     and_then (of_result (get_key jr ''created_by'')) (\<lambda>x.
     and_then (of_result (get_key x ''id'')) (User_init E (st_api self))))"

section \<open>The resource layer: property setters\<close>

text \<open>
  A setter returns \<open>Inr ()\<close> or the exception, the instance as the assignment leaves
  it, and the requests sent. \<open>assign\<close> is the common body
  \<^verbatim>\<open>self.api.put(self.resrc, self._id, {key: value}); self._attr = value\<close>.
\<close>

definition assign ::
  "env \<Rightarrow> api \<Rightarrow> string \<Rightarrow> pyval \<Rightarrow> string \<Rightarrow> pyval \<Rightarrow> 'obj \<Rightarrow> 'obj \<Rightarrow>
   request list \<Rightarrow> (error + unit) \<times> 'obj \<times> request list" where
  "assign E a resrc ident key v self updated w =
     (case put E a resrc ident [(key, v)] w of
        (Inl e, w') \<Rightarrow> (Inl e, self, w')
      | (Inr _, w') \<Rightarrow> (Inr (), updated, w'))"

definition Task_name_setter ::
  "env \<Rightarrow> task \<Rightarrow> pyval \<Rightarrow> request list \<Rightarrow> (error + unit) \<times> task \<times> request list" where
  "Task_name_setter E self name =
     assign E (t_api self) (t_resrc self) (t_id self) ''name'' name
       self (self\<lparr>t_name := name\<rparr>)"

definition Task_notes_setter ::
  "env \<Rightarrow> task \<Rightarrow> pyval \<Rightarrow> request list \<Rightarrow> (error + unit) \<times> task \<times> request list" where
  "Task_notes_setter E self notes =
     assign E (t_api self) (t_resrc self) (t_id self) ''notes'' notes
       self (self\<lparr>t_notes := notes\<rparr>)"

definition Task_completed_setter ::
  "env \<Rightarrow> task \<Rightarrow> pyval \<Rightarrow> request list \<Rightarrow> (error + unit) \<times> task \<times> request list" where
  "Task_completed_setter E self completed =
     assign E (t_api self) (t_resrc self) (t_id self) ''completed'' completed
       self (self\<lparr>t_completed := completed\<rparr>)"

definition ok_status :: "string list" where
  "ok_status = [''upcoming'', ''inbox'', ''later'', ''today'', ''upcoming'']"

definition Task_assignee_status_setter ::
  "env \<Rightarrow> task \<Rightarrow> pyval \<Rightarrow> request list \<Rightarrow> (error + unit) \<times> task \<times> request list" where
  "Task_assignee_status_setter E self status w =
     (if \<not> in_list status ok_status then
        (Inl (AsanaError (''status must be one of {'' @ join '','' ok_status @ ''}'') []),
         self, w)
      else
        assign E (t_api self) (t_resrc self) (t_id self) ''status'' status
          self (self\<lparr>t_assignee_status := status\<rparr>) w)"

definition Workspace_name_setter ::
  "env \<Rightarrow> workspace \<Rightarrow> pyval \<Rightarrow> request list \<Rightarrow>
   (error + unit) \<times> workspace \<times> request list" where
  "Workspace_name_setter E self name =
     assign E (ws_api self) (ws_resrc self) (ws_id self) ''name'' name
       self (self\<lparr>ws_name := name\<rparr>)"

definition Tag_name_setter ::
  "env \<Rightarrow> tag \<Rightarrow> pyval \<Rightarrow> request list \<Rightarrow> (error + unit) \<times> tag \<times> request list" where
  "Tag_name_setter E self name =
     assign E (tg_api self) (tg_resrc self) (tg_id self) ''name'' name
       self (self\<lparr>tg_name := name\<rparr>)"

definition Tag_notes_setter ::
  "env \<Rightarrow> tag \<Rightarrow> pyval \<Rightarrow> request list \<Rightarrow> (error + unit) \<times> tag \<times> request list" where
  "Tag_notes_setter E self notes =
     assign E (tg_api self) (tg_resrc self) (tg_id self) ''notes'' notes
       self (self\<lparr>tg_notes := notes\<rparr>)"

definition Project_archived_setter ::
  "env \<Rightarrow> project \<Rightarrow> pyval \<Rightarrow> request list \<Rightarrow> (error + unit) \<times> project \<times> request list" where
  "Project_archived_setter E self archived =
     assign E (pr_api self) (pr_resrc self) (pr_id self) ''archived'' archived
       self (self\<lparr>pr_archived := archived\<rparr>)"

definition Project_name_setter ::
  "env \<Rightarrow> project \<Rightarrow> pyval \<Rightarrow> request list \<Rightarrow> (error + unit) \<times> project \<times> request list" where
  "Project_name_setter E self name =
     assign E (pr_api self) (pr_resrc self) (pr_id self) ''name'' name
       self (self\<lparr>pr_name := name\<rparr>)"

definition Project_notes_setter ::
  "env \<Rightarrow> project \<Rightarrow> pyval \<Rightarrow> request list \<Rightarrow> (error + unit) \<times> project \<times> request list" where
  "Project_notes_setter E self notes =
     assign E (pr_api self) (pr_resrc self) (pr_id self) ''notes'' notes
       self (self\<lparr>pr_notes := notes\<rparr>)"

text \<open>
  \<^verbatim>\<open>user.id\<close>: every resource class has the property; a plain value has no such
  attribute.
\<close>

fun attr_id :: "pyobj \<Rightarrow> error + pyval" where
  "attr_id (Val v) = Inl AttributeError"
| "attr_id (UserObj u) = Inr (u_id u)"
| "attr_id (WorkspaceObj x) = Inr (ws_id x)"
| "attr_id (TaskObj t) = Inr (t_id t)"
| "attr_id (TagObj t) = Inr (tg_id t)"
| "attr_id (ProjectObj p) = Inr (pr_id p)"
| "attr_id (StoryObj s) = Inr (st_id s)"

text \<open>
  The \<^verbatim>\<open>assignee\<close> setter ends with \<^verbatim>\<open>self.assignee = user\<close>, which is the setter
  again. It is a function that need not return: \<open>None\<close> is the run that goes on for
  ever. (CPython would stop such a run with its recursion limit, an exception as
  well.)
\<close>

partial_function (option) Task_assignee_setter ::
  "env \<Rightarrow> task \<Rightarrow> pyobj \<Rightarrow> request list \<Rightarrow>
   ((error + unit) \<times> task \<times> request list) option" where
  "Task_assignee_setter E self user w =
     (case attr_id user of
        Inl _ \<Rightarrow> Some (Inl (AsanaError ''Requires a User object.'' [user]), self, w)
      | Inr user_id \<Rightarrow>
          (case put E (t_api self) (t_resrc self) (t_id self) [(''assignee'', user_id)] w of
             (Inl e, w') \<Rightarrow> Some (Inl e, self, w')
           | (Inr _, w') \<Rightarrow> Task_assignee_setter E self user w'))"

section \<open>The resource layer: methods\<close>








text \<open>
  \<^verbatim>\<open>Task(self.api, parent_id=self._id, kwargs=kwargs)\<close>: the caller's keyword arguments
  reach \<^verbatim>\<open>Task.__init__\<close> as the value of one keyword argument named \<^verbatim>\<open>kwargs\<close>.
\<close>

definition add_subtask :: "env \<Rightarrow> task \<Rightarrow> (string \<times> pyval) list \<Rightarrow> task io" where
  "add_subtask E self kwargs =
     Task_init E (t_api self) PNone PNone (t_id self) [(''kwargs'', PDict kwargs)]"

definition create_task :: "env \<Rightarrow> workspace \<Rightarrow> (string \<times> pyval) list \<Rightarrow> task io" where
  "create_task E self kwargs =
     Task_init E (ws_api self) PNone (ws_id self) PNone [(''kwargs'', PDict kwargs)]"

section \<open>Notions for stating the properties\<close>

text \<open>What a computation sends when its continuation sends nothing.\<close>

definition silent :: "'a io \<Rightarrow> bool" where
  "silent m = (\<forall>w. snd (m w) = w)"

text \<open>A computation only ever adds to the requests sent.\<close>

definition extends :: "'a io \<Rightarrow> bool" where
  "extends m = (\<forall>w. \<exists>rest. snd (m w) = w @ rest)"

text \<open>The first request a computation sends from \<open>w\<close> on is \<open>rq\<close>.\<close>

abbreviation fresh_get :: "'a io \<Rightarrow> request list \<Rightarrow> request \<Rightarrow> bool" where
  "fresh_get m w rq \<equiv> \<exists>rest. snd (m w) = w @ rq # rest"

abbreviation own_get :: "api \<Rightarrow> string \<Rightarrow> pyval \<Rightarrow> request" where
  "own_get a resrc ident \<equiv> request_of GET a resrc ident None"

abbreviation sub_get :: "api \<Rightarrow> string \<Rightarrow> pyval \<Rightarrow> string \<Rightarrow> request" where
  "sub_get a resrc ident path \<equiv> request_of GET a resrc (PStr (py_str ident @ path)) None"


text \<open>
  What one assignment does when the one request it sends is the PUT \<open>rq\<close>: the
  requests sent grow by \<open>rq\<close> and by nothing else; when that PUT returns, the
  assignment returns and the instance is \<open>updated\<close>; when that PUT raises, the
  assignment raises the same exception and the instance is \<open>self\<close>, unchanged.
\<close>

abbreviation one_put ::
  "env \<Rightarrow> request \<Rightarrow> 'obj \<Rightarrow> 'obj \<Rightarrow> request list \<Rightarrow>
   (error + unit) \<times> 'obj \<times> request list \<Rightarrow> bool"
  where
  "one_put E rq self updated w res \<equiv>
     res = (case fst (send E rq w) of
              Inl e \<Rightarrow> (Inl e, self, w @ [rq])
            | Inr x \<Rightarrow> (Inr (), updated, w @ [rq]))"

text \<open>
  The PUT the \<^verbatim>\<open>assignee\<close> setter of task \<open>t\<close> sends for the user id \<open>i\<close>, and: the
  PUT \<open>rq\<close>, sent after the requests \<open>w\<close>, returns.
\<close>

abbreviation assignee_put :: "task \<Rightarrow> pyval \<Rightarrow> request" where
  "assignee_put t i \<equiv>
     request_of PUT (t_api t) (t_resrc t) (t_id t) (Some [(''assignee'', i)])"

abbreviation put_returns :: "env \<Rightarrow> request \<Rightarrow> request list \<Rightarrow> bool" where
  "put_returns E rq w \<equiv> \<exists>x. fst (send E rq w) = Inr x"

section \<open>Fixtures\<close>

text \<open>
  A client, servers, server records and resources to run the code on. \<open>always r\<close> is
  the server that answers every request with \<open>r\<close>, on a 64-bit platform, and
  \<open>accept_first n\<close> the one that accepts the first \<open>n\<close> requests and answers 404 from
  then on; \<open>r200 d\<close> is the successful JSON
  response whose \<^verbatim>\<open>data\<close> is \<open>d\<close>. The strings of a decoded body are \<^verbatim>\<open>unicode\<close>.
\<close>

definition api0 :: api where
  "api0 = AsanaClient_init ''key'' False"

definition always :: "response \<Rightarrow> env" where
  "always r = \<lparr> respond = (\<lambda>w rq. r), strptime = (\<lambda>s f. None), maxint = 2 ^ 63 - 1 \<rparr>"


definition json_type :: "(string \<times> string) list" where
  "json_type = [(''content-type'', ''application/json; charset=UTF-8'')]"

definition errors_body :: "(string \<times> pyval) list \<Rightarrow> pyval" where
  "errors_body e = PDict [(''errors'', PList [PDict e])]"

definition r200 :: "pyval \<Rightarrow> response" where
  "r200 d = \<lparr> status_code = 200, headers = json_type, json = PDict [(''data'', d)] \<rparr>"

definition r200_empty :: response where
  "r200_empty = \<lparr> status_code = 200, headers = json_type,
                  json = PDict [(''data'', PDict [])] \<rparr>"

definition r200_task :: response where
  "r200_task = \<lparr> status_code = 200, headers = json_type,
                 json = PDict [(''data'', PDict [(''id'', PInt 1), (''name'', PUnicode ''x'')])] \<rparr>"

definition r404_json :: response where
  "r404_json = \<lparr> status_code = 404, headers = json_type,
                 json = errors_body [(''message'', PUnicode ''not found'')] \<rparr>"

definition r404_plain :: response where
  "r404_plain = \<lparr> status_code = 404, headers = [(''content-type'', ''text/plain'')],
                  json = errors_body [(''message'', PUnicode ''not found'')] \<rparr>"

definition r404_html :: response where
  "r404_html = \<lparr> status_code = 404, headers = [(''content-type'', ''text/html'')],
                 json = PNone \<rparr>"

definition r500 :: response where
  "r500 = \<lparr> status_code = 500, headers = json_type,
            json = errors_body [(''message'', PUnicode ''Server Error''),
                                (''phrase'', PUnicode ''6 sad squid snuggle softly'')] \<rparr>"

definition accept_first :: "nat \<Rightarrow> env" where
  "accept_first n =
     \<lparr> respond = (\<lambda>w rq. if length w < n then r200_task else r404_json),
       strptime = (\<lambda>s f. None), maxint = 2 ^ 63 - 1 \<rparr>"

definition workspace_record :: pyval where
  "workspace_record =
     PDict [(''id'', PInt 5), (''name'', PUnicode ''Home''), (''workspace'', PDict [(''id'', PInt 5)])]"

definition parent_record :: pyval where
  "parent_record =
     PDict [(''id'', PInt 7), (''name'', PUnicode ''Ann''), (''email'', PUnicode ''ann@example.com''),
            (''parent'', PDict [(''id'', PInt 7)])]"

definition dt0 :: datetime where
  "dt0 = \<lparr> year = 2012, month = 2, day = 22, hour = 2, minute = 6, second = 58,
           microsecond = 147000 \<rparr>"

definition user0 :: user where
  "user0 = \<lparr> u_api = api0, u_resrc = ''users'', u_name = PUnicode ''Ann'',
             u_email = PUnicode ''ann@example.com'', u_id = PInt 7 \<rparr>"

definition workspace0 :: workspace where
  "workspace0 = \<lparr> ws_api = api0, ws_resrc = ''workspaces'', ws_id = PInt 5,
                  ws_name = PUnicode ''Home'' \<rparr>"

definition task0 :: task where
  "task0 = \<lparr> t_api = api0, t_resrc = ''tasks'', t_id = PInt 1, t_name = PUnicode ''Buy milk'',
             t_notes = PUnicode [], t_assignee_status = PUnicode ''inbox'', t_created_at = dt0,
             t_modified_at = dt0, t_completed_at = None, t_completed = PBool False,
             t_due_on = PNone, t_tags = PList [], t_projects = PList [],
             t_workspace = None \<rparr>"

definition tag0 :: tag where
  "tag0 = \<lparr> tg_api = api0, tg_resrc = ''tags'', tg_id = PInt 3, tg_name = PUnicode ''urgent'',
            tg_notes = PUnicode [], tg_created_at = dt0, tg_workspace = None \<rparr>"

definition project0 :: project where
  "project0 = \<lparr> pr_api = api0, pr_resrc = ''projects'', pr_id = PInt 4,
                pr_name = PUnicode ''Errands'', pr_notes = PUnicode [], pr_archived = PBool False,
                pr_created_at = dt0, pr_modified_at = dt0, pr_workspace = None \<rparr>"

section \<open>The transport layer: status and header checks\<close>

lemma py_str_404: "py_str (PInt 404) = ''404''"
  by (simp add: py_str_def str_int_def digits.simps digit_char_def)

lemma get_key_error: "get_key v k = Inl e \<Longrightarrow> e = KeyError \<or> e = TypeError"
  by (cases v) (auto split: option.splits)

lemma index_error: "index xs i = Inl e \<Longrightarrow> e = IndexError"
  by (auto simp: index_def split: if_splits)

lemma get_idx_error:
  "get_idx v i = Inl e \<Longrightarrow> e = IndexError \<or> e = KeyError \<or> e = TypeError"
  by (cases v) (auto split: sum.splits dest: index_error)

lemma error_field_error:
  "error_field r f = Inl e \<Longrightarrow> e = IndexError \<or> e = KeyError \<or> e = TypeError"
  by (auto simp: error_field_def split: sum.splits dest: get_key_error get_idx_error)

lemma check_http_status_success:
  "status_code r = 200 \<or> status_code r = 201 \<Longrightarrow> check_http_status r = Inr ()"
  by (auto simp: check_http_status_def)

lemma check_http_status_client_error:
  assumes "status_code r \<in> {400, 401, 403, 404, 429}"
    and "error_field r ''message'' = Inr m"
  shows "check_http_status r =
           Inl (AsanaError (''Error: HTTP Status '' @ py_str (PInt (status_code r)) @ '': ''
                            @ py_str m) [])"
  using assms by (auto simp: check_http_status_def)

lemma check_http_status_500_no_domain_error:
  "status_code r = 500 \<Longrightarrow> check_http_status r \<noteq> Inl (AsanaError msg args)"
  by (auto simp: check_http_status_def split: sum.splits dest: error_field_error)

text \<open>
  C3. The status check lets 200 and 201 pass and raises \<^verbatim>\<open>AsanaError\<close> with the
  server's message for 400, 401, 403, 404 and 429 (the two lemmas above). For 500 it
  does not raise the domain error with message and phrase: on a response that carries
  both, it raises \<^verbatim>\<open>NameError\<close>.
\<close>

theorem check_http_status_500_raises_NameError:
  "check_http_status r500 = Inl NameError"
  by (simp add: check_http_status_def r500_def error_field_def errors_body_def index_def)

lemma split_not_Nil: "split c s \<noteq> []"
  by (induction s) (auto split: list.splits)

lemma index_0: "xs \<noteq> [] \<Longrightarrow> index xs 0 = Inr (hd xs)"
  by (cases xs) (auto simp: index_def)

lemma handle_response_not_json:
  assumes "map_of (headers r) ''content-type'' = Some ct"
    and "hd (split CHR '';'' ct) \<noteq> ''application/json''"
  shows "handle_response r =
           Inl (AsanaError (''Did not receive json from api: '' @ str_response r) [])"
  using assms by (simp add: handle_response_def index_0 split_not_Nil)

lemma send_not_json:
  assumes "map_of (headers (respond E w rq)) ''content-type'' = Some ct"
    and "hd (split CHR '';'' ct) \<noteq> ''application/json''"
    and "status_code (respond E w rq) \<noteq> 500"
    and "status_code (respond E w rq) \<notin> {200, 201} \<longrightarrow>
           (\<exists>m. error_field (respond E w rq) ''message'' = Inr m)"
  shows "\<exists>msg. send E rq w = (Inl (AsanaError msg []), w @ [rq])"
proof (cases "check_http_status (respond E w rq)")
  case (Inl e)
  with assms(3,4) have "\<exists>msg. e = AsanaError msg []"
    by (auto simp: check_http_status_def Let_def split: if_splits)
  with Inl show ?thesis by (auto simp: send_def)
next
  case (Inr u)
  with handle_response_not_json [OF assms(1,2)] show ?thesis
    by (simp add: send_def)
qed

lemma non_json_200_raises_AsanaError:
  "get (always (r404_html \<lparr> status_code := 200 \<rparr>)) api0 ''tasks'' (PInt 1) [] =
     (Inl (AsanaError ''Did not receive json from api: <Response [200]>'' []),
      [request_of GET api0 ''tasks'' (PInt 1) None])"
proof -
  have "py_str (PInt 200) = ''200''"
    by (simp add: py_str_def str_int_def digits.simps digit_char_def)
  then show ?thesis
    by (simp add: get_def send_def always_def r404_html_def check_http_status_def
        handle_response_def index_def str_response_def)
qed

lemma non_json_404_with_errors_raises_AsanaError:
  "get (always r404_plain) api0 ''tasks'' (PInt 1) [] =
     (Inl (AsanaError ''Error: HTTP Status 404: not found'' []),
      [request_of GET api0 ''tasks'' (PInt 1) None])"
  by (simp add: get_def send_def always_def r404_plain_def check_http_status_def
      error_field_def errors_body_def index_def py_str_404) (simp add: py_str_def)

text \<open>
  C8. The transport layer does not raise the domain error for every response whose
  content-type is not \<^verbatim>\<open>application/json\<close>: the status check runs before the header
  check and, for every status but 200 and 201, subscripts \<^verbatim>\<open>r.json\<close>. On a 404 with
  content-type \<^verbatim>\<open>text/html\<close> whose body is not JSON, \<^verbatim>\<open>r.json\<close> is \<^verbatim>\<open>None\<close> and \<^verbatim>\<open>get\<close>,
  \<^verbatim>\<open>post\<close> and \<^verbatim>\<open>put\<close> raise \<^verbatim>\<open>TypeError\<close>, having sent their request; the header check,
  which would raise \<^verbatim>\<open>AsanaError\<close>, is never reached.
\<close>

theorem non_json_404_raises_TypeError:
  "status_code r404_html = 404
   \<and> map_of (headers r404_html) ''content-type'' = Some ''text/html''
   \<and> json r404_html = PNone
   \<and> handle_response r404_html =
       Inl (AsanaError ''Did not receive json from api: <Response [404]>'' [])
   \<and> get (always r404_html) api0 ''tasks'' (PInt 1) [] =
       (Inl TypeError, [request_of GET api0 ''tasks'' (PInt 1) None])
   \<and> post (always r404_html) api0 ''tasks'' (PStr []) [(''name'', PStr ''x'')] [] =
       (Inl TypeError,
        [request_of POST api0 ''tasks'' (PStr []) (Some [(''name'', PStr ''x'')])])
   \<and> put (always r404_html) api0 ''tasks'' (PInt 1) [(''name'', PStr ''x'')] [] =
       (Inl TypeError,
        [request_of PUT api0 ''tasks'' (PInt 1) (Some [(''name'', PStr ''x'')])])"
  by (simp add: get_def post_def put_def send_def always_def r404_html_def
      check_http_status_def error_field_def handle_response_def index_def
      str_response_def py_str_404)

section \<open>Constructors: argument checks and creation requests\<close>

lemma and_then_raise [simp]: "and_then (raise e) f w = (Inl e, w)"
  by (simp add: and_then_def raise_def)

lemma and_then_ok [simp]: "and_then (ok x) f w = f x w"
  by (simp add: and_then_def ok_def)

lemma Task_init_conflict:
  assumes "2 \<le> length (filter truthy [task_id, workspace_id, parent_id])"
  shows "Task_init E a task_id workspace_id parent_id kwargs w =
           (Inl (AsanaError
              ''A Task must be created with exactly one of task_id, workspace_id, or parent_id''
              []), w)"
proof -
  from assms have "(truthy task_id \<and> truthy workspace_id) \<or>
      (truthy workspace_id \<and> truthy parent_id) \<or> (truthy task_id \<and> truthy parent_id)"
    by (auto split: if_splits)
  then show ?thesis
    by (simp add: Task_init_def Task_fetch_def)
qed

lemma Tag_init_conflict:
  "truthy tag_id \<Longrightarrow> truthy workspace_id \<Longrightarrow>
   Tag_init E a tag_id workspace_id name notes w =
     (Inl (AsanaError ''Requires a tag_id or workspace_id (not both).'' []), w)"
  by (simp add: Tag_init_def Tag_fetch_def)

lemma Project_init_conflict:
  "truthy project_id \<Longrightarrow> truthy workspace_id \<Longrightarrow>
   Project_init E a project_id workspace_id name notes archived w =
     (Inl (AsanaError ''Bad Arguments'' []), w)"
  by (simp add: Project_init_def Project_fetch_def)

text \<open>
  C2. A Task built with two or more of \<^verbatim>\<open>task_id\<close>, \<^verbatim>\<open>workspace_id\<close>, \<^verbatim>\<open>parent_id\<close>
  true, and a Tag or a Project built with both its id and \<^verbatim>\<open>workspace_id\<close> true,
  raise \<^verbatim>\<open>AsanaError\<close>, and the list of requests sent is the one before the call: no
  HTTP call was made.
\<close>

theorem conflicting_ids_raise_before_any_request:
  "(2 \<le> length (filter truthy [task_id, workspace_id, parent_id]) \<longrightarrow>
      Task_init E a task_id workspace_id parent_id kwargs w =
        (Inl (AsanaError
           ''A Task must be created with exactly one of task_id, workspace_id, or parent_id''
           []), w))
   \<and> (truthy tag_id \<and> truthy workspace_id \<longrightarrow>
      Tag_init E a tag_id workspace_id name notes w =
        (Inl (AsanaError ''Requires a tag_id or workspace_id (not both).'' []), w))
   \<and> (truthy project_id \<and> truthy workspace_id \<longrightarrow>
      Project_init E a project_id workspace_id name notes archived w =
        (Inl (AsanaError ''Bad Arguments'' []), w))"
  by (intro conjI impI)
    (erule Task_init_conflict, simp add: Tag_init_conflict, simp add: Project_init_conflict)

theorem conflicting_ids_raise_before_any_request_witness:
  "2 \<le> length (filter truthy [PInt 1, PInt 5, PNone]) \<and>
   Task_init (always r200_empty) api0 (PInt 1) (PInt 5) PNone [] [] =
     (Inl (AsanaError
        ''A Task must be created with exactly one of task_id, workspace_id, or parent_id''
        []), []) \<and>
   truthy (PInt 3) \<and> truthy (PInt 5) \<and>
   Tag_init (always r200_empty) api0 (PInt 3) (PInt 5) PNone PNone [] =
     (Inl (AsanaError ''Requires a tag_id or workspace_id (not both).'' []), []) \<and>
   truthy (PInt 4) \<and>
   Project_init (always r200_empty) api0 (PInt 4) (PInt 5) PNone PNone PNone [] =
     (Inl (AsanaError ''Bad Arguments'' []), [])"
  using conflicting_ids_raise_before_any_request
    [of "PInt 1" "PInt 5" PNone "always r200_empty" api0 "[]" "[]" "PInt 3" PNone PNone
        "PInt 4" PNone]
  by simp

text \<open>
  C9. Built with neither an id nor a workspace id, a Task raises \<^verbatim>\<open>AsanaError\<close>, but a
  Tag and a Project do not: no branch binds \<^verbatim>\<open>jr\<close>, and \<^verbatim>\<open>jr['id']\<close> raises
  \<^verbatim>\<open>UnboundLocalError\<close>.
\<close>

theorem Tag_and_Project_without_ids_raise_UnboundLocalError:
  "Tag_init E a PNone PNone PNone PNone w = (Inl UnboundLocalError, w) \<and>
   Project_init E a PNone PNone PNone PNone PNone w = (Inl UnboundLocalError, w) \<and>
   Task_init E a PNone PNone PNone [] w = (Inl (AsanaError ''Bug encountered.'' []), w)"
  by (simp add: Tag_init_def Tag_fetch_def Project_init_def Project_fetch_def unbound_def
      Task_init_def Task_fetch_def)

lemma silent_ok [simp]: "silent (ok x)"
  by (simp add: silent_def ok_def)

lemma silent_raise [simp]: "silent (raise e)"
  by (simp add: silent_def raise_def)

lemma silent_of_result [simp]: "silent (of_result r)"
  by (simp add: silent_def of_result_def)

lemma silent_and_then [simp]: "silent m \<Longrightarrow> (\<And>x. silent (f x)) \<Longrightarrow> silent (and_then m f)"
  by (auto simp: silent_def and_then_def split: prod.splits sum.splits)
    (metis snd_conv)+

lemma silent_if [simp]: "silent m \<Longrightarrow> silent n \<Longrightarrow> silent (if b then m else n)"
  by simp

lemma snd_and_then_silent: "(\<And>x. silent (f x)) \<Longrightarrow> snd (and_then m f w) = snd (m w)"
  by (auto simp: silent_def and_then_def split: prod.splits sum.splits)

lemma snd_send [simp]: "snd (send E rq w) = w @ [rq]"
  by (simp add: send_def Let_def split: sum.splits)

lemma snd_get [simp]: "snd (get E a r e w) = w @ [request_of GET a r e None]"
  by (simp add: get_def)

lemma snd_post [simp]: "snd (post E a r e d w) = w @ [request_of POST a r e (Some d)]"
  by (simp add: post_def)

lemma snd_put [simp]: "snd (put E a r e d w) = w @ [request_of PUT a r e (Some d)]"
  by (simp add: put_def)

lemma snd_Task_init:
  "snd (Task_init E a task_id workspace_id parent_id kwargs w) =
   snd (Task_fetch E a task_id workspace_id parent_id kwargs w)"
  unfolding Task_init_def by (rule snd_and_then_silent) simp

lemma dict_workspace_kwargs:
  "dict [(''workspace'', i), (''kwargs'', v)] = [(''workspace'', i), (''kwargs'', v)]"
  by (simp add: dict_def)

text \<open>
  C10. \<^verbatim>\<open>create_task\<close> and \<^verbatim>\<open>add_subtask\<close> call the Task constructor with the keyword
  dictionary \<^verbatim>\<open>{'kwargs': params}\<close>; when the workspace's (the task's) id is true, the
  one request sent is a POST whose payload holds the whole of \<^verbatim>\<open>params\<close> under the
  key \<^verbatim>\<open>kwargs\<close>, beside \<^verbatim>\<open>workspace\<close> for \<^verbatim>\<open>create_task\<close>, and nothing else.
\<close>

theorem creation_parameters_posted_under_kwargs:
  "create_task E ws params =
     Task_init E (ws_api ws) PNone (ws_id ws) PNone [(''kwargs'', PDict params)]
   \<and> add_subtask E t params =
     Task_init E (t_api t) PNone PNone (t_id t) [(''kwargs'', PDict params)]
   \<and> (truthy (ws_id ws) \<longrightarrow>
        snd (create_task E ws params w) =
          w @ [request_of POST (ws_api ws) ''tasks'' (PStr [])
                 (Some [(''workspace'', ws_id ws), (''kwargs'', PDict params)])])
   \<and> (truthy (t_id t) \<longrightarrow>
        snd (add_subtask E t params w) =
          w @ [request_of POST (t_api t) ''tasks'' (PStr (py_str (t_id t) @ ''/subtasks''))
                 (Some [(''kwargs'', PDict params)])])"
  by (simp add: create_task_def add_subtask_def snd_Task_init Task_fetch_def
      dict_workspace_kwargs)

theorem creation_parameters_posted_under_kwargs_witness:
  "truthy (ws_id workspace0) \<and>
   snd (create_task (always r200_empty) workspace0 [(''name'', PStr ''Buy milk'')] []) =
     [request_of POST api0 ''tasks'' (PStr [])
        (Some [(''workspace'', PInt 5), (''kwargs'', PDict [(''name'', PStr ''Buy milk'')])])]
   \<and> truthy (t_id task0) \<and>
   snd (add_subtask (always r200_empty) task0 [(''name'', PStr ''Buy milk'')] []) =
     [request_of POST api0 ''tasks'' (PStr ''1/subtasks'')
        (Some [(''kwargs'', PDict [(''name'', PStr ''Buy milk'')])])]"
proof -
  have py1: "py_str (PInt 1) = ''1''"
    by (simp add: py_str_def str_int_def digits.simps digit_char_def)
  have ws: "ws_api workspace0 = api0" "ws_id workspace0 = PInt 5"
    by (simp_all add: workspace0_def)
  have t: "t_api task0 = api0" "t_id task0 = PInt 1"
    by (simp_all add: task0_def)
  have h1: "truthy (ws_id workspace0)" and h2: "truthy (t_id task0)"
    by (simp_all add: ws t)
  from creation_parameters_posted_under_kwargs
      [of "always r200_empty" workspace0 "[(''name'', PStr ''Buy milk'')]" task0 "[]"] h1 h2
  have "snd (create_task (always r200_empty) workspace0 [(''name'', PStr ''Buy milk'')] []) =
          [] @ [request_of POST (ws_api workspace0) ''tasks'' (PStr [])
             (Some [(''workspace'', ws_id workspace0),
                    (''kwargs'', PDict [(''name'', PStr ''Buy milk'')])])]"
    and "snd (add_subtask (always r200_empty) task0 [(''name'', PStr ''Buy milk'')] []) =
          [] @ [request_of POST (t_api task0) ''tasks'' (PStr (py_str (t_id task0) @ ''/subtasks''))
             (Some [(''kwargs'', PDict [(''name'', PStr ''Buy milk'')])])]"
    by blast+
  with h1 h2 show ?thesis
    by (simp add: ws t py1)
qed

section \<open>Attaching tags and projects to a task\<close>








lemma py_str_1: "py_str (PInt 1) = ''1''"
  by (simp add: py_str_def str_int_def digits.simps digit_char_def)

lemma task0_fields:
  "t_api task0 = api0" "t_resrc task0 = ''tasks''" "t_id task0 = PInt 1"
  by (simp_all add: task0_def)




section \<open>Property setters\<close>

lemma assign_one_put:
  "one_put E (request_of PUT a resrc i (Some [(key, v)])) self updated w
     (assign E a resrc i key v self updated w)"
proof (cases "send E (request_of PUT a resrc i (Some [(key, v)])) w")
  case (Pair r w')
  moreover from Pair have "w' = w @ [request_of PUT a resrc i (Some [(key, v)])]"
    using snd_send [of E "request_of PUT a resrc i (Some [(key, v)])" w] by simp
  ultimately show ?thesis
    by (cases r) (simp_all add: assign_def put_def)
qed

lemma ok_status_set:
  "in_list v ok_status =
     (case text_of v of None \<Rightarrow> False
      | Some s \<Rightarrow> s \<in> {''upcoming'', ''inbox'', ''later'', ''today''})"
  by (auto simp: in_list_def ok_status_def split: option.splits)

lemma join_ok_status: "join '','' ok_status = ''upcoming,inbox,later,today,upcoming''"
  by (simp add: ok_status_def)

text \<open>
  C1, as the code has it. For Task \<^verbatim>\<open>name\<close>, \<^verbatim>\<open>notes\<close>, \<^verbatim>\<open>completed\<close>, Workspace
  \<^verbatim>\<open>name\<close>, Tag \<^verbatim>\<open>name\<close>, \<^verbatim>\<open>notes\<close> and Project \<^verbatim>\<open>name\<close>, \<^verbatim>\<open>notes\<close>, \<^verbatim>\<open>archived\<close>, an
  assignment sends exactly one PUT to the resource's own endpoint with body
  \<^verbatim>\<open>{field: value}\<close>; when that PUT returns the assignment returns and the attribute
  holds the value, and when that PUT raises the assignment raises the same exception
  and the attribute is unchanged. Task \<^verbatim>\<open>assignee_status\<close> does so (one PUT to the task's
  endpoint) only for a status of its list; any other value raises \<^verbatim>\<open>AsanaError\<close> with
  nothing sent and nothing changed.
\<close>

theorem setters_send_one_put:
  "one_put E (request_of PUT (t_api t) (t_resrc t) (t_id t) (Some [(''name'', v)]))
     t (t\<lparr>t_name := v\<rparr>) w (Task_name_setter E t v w)
   \<and> one_put E (request_of PUT (t_api t) (t_resrc t) (t_id t) (Some [(''notes'', v)]))
     t (t\<lparr>t_notes := v\<rparr>) w (Task_notes_setter E t v w)
   \<and> one_put E (request_of PUT (t_api t) (t_resrc t) (t_id t) (Some [(''completed'', v)]))
     t (t\<lparr>t_completed := v\<rparr>) w (Task_completed_setter E t v w)
   \<and> one_put E (request_of PUT (ws_api ws) (ws_resrc ws) (ws_id ws) (Some [(''name'', v)]))
     ws (ws\<lparr>ws_name := v\<rparr>) w (Workspace_name_setter E ws v w)
   \<and> one_put E (request_of PUT (tg_api tg) (tg_resrc tg) (tg_id tg) (Some [(''name'', v)]))
     tg (tg\<lparr>tg_name := v\<rparr>) w (Tag_name_setter E tg v w)
   \<and> one_put E (request_of PUT (tg_api tg) (tg_resrc tg) (tg_id tg) (Some [(''notes'', v)]))
     tg (tg\<lparr>tg_notes := v\<rparr>) w (Tag_notes_setter E tg v w)
   \<and> one_put E (request_of PUT (pr_api p) (pr_resrc p) (pr_id p) (Some [(''name'', v)]))
     p (p\<lparr>pr_name := v\<rparr>) w (Project_name_setter E p v w)
   \<and> one_put E (request_of PUT (pr_api p) (pr_resrc p) (pr_id p) (Some [(''notes'', v)]))
     p (p\<lparr>pr_notes := v\<rparr>) w (Project_notes_setter E p v w)
   \<and> one_put E (request_of PUT (pr_api p) (pr_resrc p) (pr_id p) (Some [(''archived'', v)]))
     p (p\<lparr>pr_archived := v\<rparr>) w (Project_archived_setter E p v w)
   \<and> (in_list v ok_status \<longrightarrow>
        (\<exists>body. one_put E (request_of PUT (t_api t) (t_resrc t) (t_id t) (Some body))
           t (t\<lparr>t_assignee_status := v\<rparr>) w (Task_assignee_status_setter E t v w)))
   \<and> (\<not> in_list v ok_status \<longrightarrow>
        Task_assignee_status_setter E t v w =
          (Inl (AsanaError ''status must be one of {upcoming,inbox,later,today,upcoming}'' []),
           t, w))"
proof -
  have "in_list v ok_status \<Longrightarrow>
      \<exists>body. one_put E (request_of PUT (t_api t) (t_resrc t) (t_id t) (Some body))
           t (t\<lparr>t_assignee_status := v\<rparr>) w (Task_assignee_status_setter E t v w)"
    unfolding Task_assignee_status_setter_def
    by (simp only: if_False simp_thms) (rule exI, rule assign_one_put)
  moreover have "\<not> in_list v ok_status \<Longrightarrow>
      Task_assignee_status_setter E t v w =
        (Inl (AsanaError ''status must be one of {upcoming,inbox,later,today,upcoming}'' []),
         t, w)"
    by (simp add: Task_assignee_status_setter_def join_ok_status)
  ultimately show ?thesis
    unfolding Task_name_setter_def Task_notes_setter_def Task_completed_setter_def
      Workspace_name_setter_def Tag_name_setter_def Tag_notes_setter_def
      Project_name_setter_def Project_notes_setter_def Project_archived_setter_def
    by (intro conjI impI assign_one_put) blast+
qed

lemma send_r200_task:
  "send (always r200_task) rq w = (Inr (PDict [(''id'', PInt 1), (''name'', PUnicode ''x'')]), w @ [rq])"
  by (simp add: send_def always_def r200_task_def check_http_status_def handle_response_def
      json_type_def index_def)

lemma send_r404_json:
  "send (always r404_json) rq w =
     (Inl (AsanaError ''Error: HTTP Status 404: not found'' []), w @ [rq])"
  by (simp add: send_def always_def r404_json_def check_http_status_def error_field_def
      errors_body_def index_def py_str_404) (simp add: py_str_def)

theorem setters_send_one_put_witness:
  "Task_name_setter (always r200_task) task0 (PStr ''x'') [] =
     (Inr (), task0\<lparr>t_name := PStr ''x''\<rparr>,
      [\<lparr> rq_method = PUT, rq_url = ''https://app.asana.com/api/1.0/tasks/1'',
         rq_auth = (''key'', []), rq_data = Some [(''name'', PStr ''x'')] \<rparr>])
   \<and> Task_notes_setter (always r404_json) task0 (PStr ''x'') [] =
     (Inl (AsanaError ''Error: HTTP Status 404: not found'' []), task0,
      [\<lparr> rq_method = PUT, rq_url = ''https://app.asana.com/api/1.0/tasks/1'',
         rq_auth = (''key'', []), rq_data = Some [(''notes'', PStr ''x'')] \<rparr>])
   \<and> in_list (PStr ''later'') ok_status
   \<and> fst (snd (Task_assignee_status_setter (always r200_task) task0 (PStr ''later'') [])) =
       task0\<lparr>t_assignee_status := PStr ''later''\<rparr>
   \<and> \<not> in_list (PStr ''soon'') ok_status
   \<and> Task_assignee_status_setter (always r200_task) task0 (PStr ''soon'') [] =
       (Inl (AsanaError ''status must be one of {upcoming,inbox,later,today,upcoming}'' []),
        task0, [])"
proof -
  have url: "request_of PUT api0 ''tasks'' (PInt 1) d =
      \<lparr> rq_method = PUT, rq_url = ''https://app.asana.com/api/1.0/tasks/1'',
        rq_auth = (''key'', []), rq_data = d \<rparr>" for d
    by (simp add: request_of_def target_def api0_def AsanaClient_init_def py_str_1)
  have in1: "in_list (PStr ''later'') ok_status"
    and out1: "\<not> in_list (PStr ''soon'') ok_status"
    by (simp_all add: ok_status_set)
  note returns = setters_send_one_put
    [where E = "always r200_task" and t = task0 and v = "PStr ''x''" and w = "[]",
     THEN conjunct1]
  note raises = setters_send_one_put
    [where E = "always r404_json" and t = task0 and v = "PStr ''x''" and w = "[]",
     THEN conjunct2, THEN conjunct1]
  note later = setters_send_one_put
    [where E = "always r200_task" and t = task0 and v = "PStr ''later''" and w = "[]"
       and ws = workspace0 and tg = tag0 and p = project0]
  note soon = setters_send_one_put
    [where E = "always r200_task" and t = task0 and v = "PStr ''soon''" and w = "[]"
       and ws = workspace0 and tg = tag0 and p = project0]
  from returns have "Task_name_setter (always r200_task) task0 (PStr ''x'') [] =
      (Inr (), task0\<lparr>t_name := PStr ''x''\<rparr>,
       [request_of PUT (t_api task0) (t_resrc task0) (t_id task0)
          (Some [(''name'', PStr ''x'')])])"
    by (simp add: send_r200_task)
  moreover from raises have "Task_notes_setter (always r404_json) task0 (PStr ''x'') [] =
      (Inl (AsanaError ''Error: HTTP Status 404: not found'' []), task0,
       [request_of PUT (t_api task0) (t_resrc task0) (t_id task0)
          (Some [(''notes'', PStr ''x'')])])"
    by (simp add: send_r404_json)
  moreover from later in1
  have "fst (snd (Task_assignee_status_setter (always r200_task) task0 (PStr ''later'') [])) =
      task0\<lparr>t_assignee_status := PStr ''later''\<rparr>"
    by (auto simp: send_r200_task)
  moreover from soon out1
  have "Task_assignee_status_setter (always r200_task) task0 (PStr ''soon'') [] =
      (Inl (AsanaError ''status must be one of {upcoming,inbox,later,today,upcoming}'' []),
       task0, [])"
    by blast
  ultimately show ?thesis
    using in1 out1 by (simp add: task0_fields url)
qed

text \<open>
  The claim as stated fails twice. A status outside the list is refused before any
  request; and when the PUT raises, here on a 404, the attribute keeps its old value.
\<close>

theorem assignment_without_put_or_without_update:
  "Task_assignee_status_setter (always r200_task) task0 (PStr ''soon'') [] =
     (Inl (AsanaError ''status must be one of {upcoming,inbox,later,today,upcoming}'' []),
      task0, [])
   \<and> t_assignee_status task0 \<noteq> PStr ''soon''
   \<and> Task_name_setter (always r404_json) task0 (PStr ''x'') [] =
     (Inl (AsanaError ''Error: HTTP Status 404: not found'' []), task0,
      [request_of PUT api0 ''tasks'' (PInt 1) (Some [(''name'', PStr ''x'')])])
   \<and> t_name task0 \<noteq> PStr ''x''"
  by (simp add: Task_assignee_status_setter_def ok_status_set join_ok_status
      Task_name_setter_def assign_def put_def send_r404_json task0_fields)
    (simp add: task0_def)

section \<open>The assignee setter\<close>

lemma Task_assignee_setter_no_return:
  assumes run: "Task_assignee_setter E t u w = Some y"
  shows "fst y \<noteq> Inr ()"
  by (rule Task_assignee_setter.raw_induct
        [where P = "\<lambda>E t u w y. fst y \<noteq> Inr ()", OF _ run])
     (auto split: sum.splits prod.splits)

lemma Task_assignee_setter_no_id:
  "attr_id u = Inl AttributeError \<Longrightarrow>
   Task_assignee_setter E t u w =
     Some (Inl (AsanaError ''Requires a User object.'' [u]), t, w)"
  by (subst Task_assignee_setter.simps) simp

lemma send_cases:
  "(\<exists>e. send E rq w = (Inl e, w @ [rq])) \<or> (\<exists>x. send E rq w = (Inr x, w @ [rq]))"
  using snd_send [of E rq w] by (cases "send E rq w"; cases "fst (send E rq w)") auto

lemma Task_assignee_setter_step:
  assumes "attr_id u = Inr i" and "put_returns E (assignee_put t i) w"
  shows "Task_assignee_setter E t u w = Task_assignee_setter E t u (w @ [assignee_put t i])"
proof -
  from assms(2) send_cases [of E "assignee_put t i" w]
  obtain x where "send E (assignee_put t i) w = (Inr x, w @ [assignee_put t i])"
    by auto
  with assms(1) show ?thesis
    by (subst Task_assignee_setter.simps) (simp add: put_def)
qed

lemma Task_assignee_setter_stop:
  assumes "attr_id u = Inr i" and "fst (send E (assignee_put t i) w) = Inl e"
  shows "Task_assignee_setter E t u w = Some (Inl e, t, w @ [assignee_put t i])"
proof -
  from assms(2) send_cases [of E "assignee_put t i" w]
  have "send E (assignee_put t i) w = (Inl e, w @ [assignee_put t i])"
    by auto
  with assms(1) show ?thesis
    by (subst Task_assignee_setter.simps) (simp add: put_def)
qed

lemma Task_assignee_setter_after:
  assumes "attr_id u = Inr i"
    and "\<forall>k<n. put_returns E (assignee_put t i) (w @ replicate k (assignee_put t i))"
    and "fst (send E (assignee_put t i) (w @ replicate n (assignee_put t i))) = Inl e"
  shows "Task_assignee_setter E t u w =
           Some (Inl e, t, w @ replicate (Suc n) (assignee_put t i))"
  using assms(2,3)
proof (induction n arbitrary: w)
  case 0
  with Task_assignee_setter_stop [OF assms(1), of E t w e] show ?case
    by simp
next
  case (Suc n)
  let ?rq = "assignee_put t i"
  from Suc.prems(1) have first: "put_returns E ?rq w"
    by (auto dest: spec [of _ 0])
  have "\<forall>k<n. put_returns E ?rq ((w @ [?rq]) @ replicate k ?rq)"
  proof (intro allI impI)
    fix k
    assume "k < n"
    with Suc.prems(1) have "put_returns E ?rq (w @ replicate (Suc k) ?rq)"
      by (auto dest: spec [of _ "Suc k"])
    then show "put_returns E ?rq ((w @ [?rq]) @ replicate k ?rq)"
      by simp
  qed
  moreover from Suc.prems(2)
  have "fst (send E ?rq ((w @ [?rq]) @ replicate n ?rq)) = Inl e"
    by simp
  ultimately have "Task_assignee_setter E t u (w @ [?rq]) =
      Some (Inl e, t, (w @ [?rq]) @ replicate (Suc n) ?rq)"
    by (rule Suc.IH)
  with Task_assignee_setter_step [OF assms(1) first] show ?case
    by simp
qed

lemma Task_assignee_setter_diverges:
  assumes run: "Task_assignee_setter E t u w = Some y"
  shows "attr_id u = Inr i \<longrightarrow>
         (\<forall>k. put_returns E (assignee_put t i) (w @ replicate k (assignee_put t i)))
         \<longrightarrow> False"
proof (rule Task_assignee_setter.raw_induct
        [where P = "\<lambda>E t u w y. attr_id u = Inr i \<longrightarrow>
           (\<forall>k. put_returns E (assignee_put t i) (w @ replicate k (assignee_put t i)))
           \<longrightarrow> False", OF _ run], intro impI)
  fix rec E t u w y
  let ?rq = "assignee_put t i"
  assume IH: "\<And>E' t' u' w' y'. rec E' t' u' w' = Some y' \<Longrightarrow>
      attr_id u' = Inr i \<longrightarrow>
      (\<forall>k. put_returns E' (assignee_put t' i) (w' @ replicate k (assignee_put t' i)))
      \<longrightarrow> False"
    and body: "(case attr_id u of
        Inl x \<Rightarrow> Some (Inl (AsanaError ''Requires a User object.'' [u]), t, w)
      | Inr user_id \<Rightarrow>
          (case put E (t_api t) (t_resrc t) (t_id t) [(''assignee'', user_id)] w of
             (Inl e, w') \<Rightarrow> Some (Inl e, t, w')
           | (Inr x, w') \<Rightarrow> rec E t u w')) = Some y"
    and u: "attr_id u = Inr i"
    and acc: "\<forall>k. put_returns E ?rq (w @ replicate k ?rq)"
  from acc have "put_returns E ?rq w"
    by (auto dest: spec [of _ 0])
  with send_cases [of E ?rq w] obtain x where "send E ?rq w = (Inr x, w @ [?rq])"
    by auto
  with body u have "rec E t u (w @ [?rq]) = Some y"
    by (simp add: put_def)
  moreover have "\<forall>k. put_returns E ?rq ((w @ [?rq]) @ replicate k ?rq)"
  proof
    fix k
    from acc have "put_returns E ?rq (w @ replicate (Suc k) ?rq)"
      by blast
    then show "put_returns E ?rq ((w @ [?rq]) @ replicate k ?rq)"
      by simp
  qed
  ultimately show False
    using IH u by blast
qed

text \<open>
  C5. Assigning \<^verbatim>\<open>Task.assignee\<close> never returns normally, whatever the argument: it
  raises or it runs for ever. An argument without an \<^verbatim>\<open>id\<close> is refused with nothing
  sent. With an argument that has an \<^verbatim>\<open>id\<close>, a PUT that returns is followed by the same
  call of the setter with that PUT sent; so when the first \<open>n\<close> PUTs return and the next
  one raises, the call raises that exception having sent \<open>n + 1\<close> PUTs, and when every
  PUT returns the call has no result at all.
\<close>

theorem assignee_setter_never_returns:
  "(\<forall>t' w'. Task_assignee_setter E t u w \<noteq> Some (Inr (), t', w'))
   \<and> (attr_id u = Inl AttributeError \<longrightarrow>
       Task_assignee_setter E t u w =
         Some (Inl (AsanaError ''Requires a User object.'' [u]), t, w))
   \<and> (attr_id u = Inr i \<and> put_returns E (assignee_put t i) w \<longrightarrow>
       Task_assignee_setter E t u w = Task_assignee_setter E t u (w @ [assignee_put t i]))
   \<and> (attr_id u = Inr i \<and>
       (\<forall>k<n. put_returns E (assignee_put t i) (w @ replicate k (assignee_put t i))) \<and>
       fst (send E (assignee_put t i) (w @ replicate n (assignee_put t i))) = Inl e \<longrightarrow>
       Task_assignee_setter E t u w =
         Some (Inl e, t, w @ replicate (Suc n) (assignee_put t i)))
   \<and> (attr_id u = Inr i \<and>
       (\<forall>k. put_returns E (assignee_put t i) (w @ replicate k (assignee_put t i))) \<longrightarrow>
       Task_assignee_setter E t u w = None)"
proof (intro conjI allI impI)
  fix t' w'
  show "Task_assignee_setter E t u w \<noteq> Some (Inr (), t', w')"
    using Task_assignee_setter_no_return [of E t u w "(Inr (), t', w')"] by auto
next
  assume "attr_id u = Inl AttributeError"
  then show "Task_assignee_setter E t u w =
      Some (Inl (AsanaError ''Requires a User object.'' [u]), t, w)"
    by (rule Task_assignee_setter_no_id)
next
  assume "attr_id u = Inr i \<and> put_returns E (assignee_put t i) w"
  then show "Task_assignee_setter E t u w =
      Task_assignee_setter E t u (w @ [assignee_put t i])"
    using Task_assignee_setter_step [of u i E t w] by blast
next
  assume "attr_id u = Inr i \<and>
       (\<forall>k<n. put_returns E (assignee_put t i) (w @ replicate k (assignee_put t i))) \<and>
       fst (send E (assignee_put t i) (w @ replicate n (assignee_put t i))) = Inl e"
  then show "Task_assignee_setter E t u w =
      Some (Inl e, t, w @ replicate (Suc n) (assignee_put t i))"
    using Task_assignee_setter_after [of u i n E t w e] by blast
next
  assume "attr_id u = Inr i \<and>
       (\<forall>k. put_returns E (assignee_put t i) (w @ replicate k (assignee_put t i)))"
  then show "Task_assignee_setter E t u w = None"
    using Task_assignee_setter_diverges [of E t u w _ i]
    by (cases "Task_assignee_setter E t u w") blast+
qed

lemma send_accept_first:
  "send (accept_first n) rq w =
     (if length w < n then (Inr (PDict [(''id'', PInt 1), (''name'', PUnicode ''x'')]), w @ [rq])
      else (Inl (AsanaError ''Error: HTTP Status 404: not found'' []), w @ [rq]))"
  using send_r200_task [of rq w] send_r404_json [of rq w]
  by (simp add: send_def accept_first_def always_def)

theorem assignee_setter_never_returns_witness:
  "attr_id (UserObj user0) = Inr (PInt 7)
   \<and> Task_assignee_setter (accept_first 1) task0 (UserObj user0) [] =
       Some (Inl (AsanaError ''Error: HTTP Status 404: not found'' []), task0,
             [\<lparr> rq_method = PUT, rq_url = ''https://app.asana.com/api/1.0/tasks/1'',
                rq_auth = (''key'', []), rq_data = Some [(''assignee'', PInt 7)] \<rparr>,
              \<lparr> rq_method = PUT, rq_url = ''https://app.asana.com/api/1.0/tasks/1'',
                rq_auth = (''key'', []), rq_data = Some [(''assignee'', PInt 7)] \<rparr>])
   \<and> Task_assignee_setter (always r200_task) task0 (UserObj user0) [] = None
   \<and> Task_assignee_setter (always r200_task) task0 (Val (PInt 7)) [] =
       Some (Inl (AsanaError ''Requires a User object.'' [Val (PInt 7)]), task0, [])"
proof -
  let ?rq = "assignee_put task0 (PInt 7)"
  have url: "?rq =
      \<lparr> rq_method = PUT, rq_url = ''https://app.asana.com/api/1.0/tasks/1'',
        rq_auth = (''key'', []), rq_data = Some [(''assignee'', PInt 7)] \<rparr>"
    by (simp add: task0_fields request_of_def target_def api0_def AsanaClient_init_def
        py_str_1)
  have h1: "attr_id (UserObj user0) = Inr (PInt 7)"
    by (simp add: user0_def)
  have h2: "\<forall>k<1. put_returns (accept_first 1) ?rq ([] @ replicate k ?rq)"
    by (simp add: send_accept_first)
  have h3: "fst (send (accept_first 1) ?rq ([] @ replicate 1 ?rq)) =
      Inl (AsanaError ''Error: HTTP Status 404: not found'' [])"
    by (simp add: send_accept_first)
  have h4: "\<forall>k. put_returns (always r200_task) ?rq ([] @ replicate k ?rq)"
    by (simp add: send_r200_task)
  have h5: "attr_id (Val (PInt 7)) = Inl AttributeError"
    by simp
  note stops = assignee_setter_never_returns
    [where E = "accept_first 1" and t = task0 and u = "UserObj user0" and w = "[]"
       and i = "PInt 7" and n = 1
       and e = "AsanaError ''Error: HTTP Status 404: not found'' []"]
  note runs = assignee_setter_never_returns
    [where E = "always r200_task" and t = task0 and u = "UserObj user0" and w = "[]"
       and i = "PInt 7" and n = 0 and e = KeyError]
  note refused = assignee_setter_never_returns
    [where E = "always r200_task" and t = task0 and u = "Val (PInt 7)" and w = "[]"
       and i = "PInt 7" and n = 0 and e = KeyError]
  from stops h1 h2 h3
  have "Task_assignee_setter (accept_first 1) task0 (UserObj user0) [] =
      Some (Inl (AsanaError ''Error: HTTP Status 404: not found'' []), task0,
            [] @ replicate (Suc 1) ?rq)"
    by blast
  moreover from runs h1 h4
  have "Task_assignee_setter (always r200_task) task0 (UserObj user0) [] = None"
    by blast
  moreover from refused h5
  have "Task_assignee_setter (always r200_task) task0 (Val (PInt 7)) [] =
      Some (Inl (AsanaError ''Requires a User object.'' [Val (PInt 7)]), task0, [])"
    by blast
  ultimately show ?thesis
    using h1 by (simp add: url numeral_2_eq_2)
qed

section \<open>Relationship properties\<close>

lemma extends_silent: "silent m \<Longrightarrow> extends m"
  by (simp add: silent_def extends_def)

lemma extends_ok [simp]: "extends (ok x)"
  by (simp add: extends_silent)

lemma extends_raise [simp]: "extends (raise e)"
  by (simp add: extends_silent)

lemma extends_of_result [simp]: "extends (of_result r)"
  by (simp add: extends_silent)

lemma extends_get [simp]: "extends (get E a r e)"
  by (simp add: extends_def)

lemma extends_post [simp]: "extends (post E a r e d)"
  by (simp add: extends_def)

lemma extends_and_then [simp]:
  assumes "extends m" and "\<And>x. extends (f x)"
  shows "extends (and_then m f)"
  unfolding extends_def
proof
  fix w
  obtain r w1 where m: "m w = (r, w1)"
    by (cases "m w")
  from assms(1) m obtain rest1 where w1: "w1 = w @ rest1"
    by (auto simp: extends_def dest: spec [of _ w])
  show "\<exists>rest. snd (and_then m f w) = w @ rest"
  proof (cases r)
    case (Inl e)
    with m w1 show ?thesis
      by (simp add: and_then_def)
  next
    case (Inr x)
    from assms(2) [of x] obtain rest2 where "snd (f x w1) = w1 @ rest2"
      by (auto simp: extends_def dest: spec [of _ w1])
    with m w1 Inr show ?thesis
      by (simp add: and_then_def)
  qed
qed

lemma extends_for_each [simp]:
  assumes "\<And>x. extends (f x)"
  shows "extends (for_each f xs)"
  unfolding extends_def
proof (induction xs)
  case Nil
  show ?case by simp
next
  case (Cons x xs)
  show ?case
  proof
    fix w
    obtain r w1 where fx: "f x w = (r, w1)"
      by (cases "f x w")
    from assms [of x] fx obtain rest1 where w1: "w1 = w @ rest1"
      by (auto simp: extends_def dest: spec [of _ w])
    from Cons obtain rest2 where "snd (for_each f xs w1) = w1 @ rest2"
      by blast
    with fx w1 show "\<exists>rest. snd (for_each f (x # xs) w) = w @ rest"
      by (cases r; cases "for_each f xs w1") (auto split: sum.splits)
  qed
qed

lemma extends_wrap_each [simp]: "(\<And>i. extends (ctor i)) \<Longrightarrow> extends (wrap_each ctor v)"
  by (simp add: wrap_each_def)

lemma extends_User_init [simp]: "extends (User_init E a i)"
  by (simp add: User_init_def)

lemma extends_Workspace_init [simp]: "extends (Workspace_init E a i)"
  by (simp add: Workspace_init_def)

lemma extends_Story_init [simp]: "extends (Story_init E a i)"
  by (simp add: Story_init_def)

lemma extends_Task_init [simp]: "extends (Task_init E a i ws p kw)"
  by (simp add: Task_init_def Task_fetch_def)

lemma extends_unbound [simp]: "extends (unbound jr)"
  by (simp add: unbound_def split: option.splits)

lemma extends_Tag_init [simp]: "extends (Tag_init E a i ws n nt)"
  by (simp add: Tag_init_def Tag_fetch_def Let_def)

lemma extends_Project_init [simp]: "extends (Project_init E a i ws n nt ar)"
  by (simp add: Project_init_def Project_fetch_def Let_def)

lemma first_get:
  assumes "\<And>x. extends (f x)"
  shows "fresh_get (and_then (get E a r e) f) w (own_get a r e)"
proof -
  obtain res w1 where g: "get E a r e w = (res, w1)"
    by (cases "get E a r e w")
  with snd_get [of E a r e w] have w1: "w1 = w @ [own_get a r e]"
    by simp
  show ?thesis
  proof (cases res)
    case (Inl err)
    with g w1 show ?thesis
      by (simp add: and_then_def)
  next
    case (Inr x)
    from assms [of x] obtain rest where "snd (f x w1) = w1 @ rest"
      by (auto simp: extends_def dest: spec [of _ w1])
    with g w1 Inr show ?thesis
      by (simp add: and_then_def)
  qed
qed

lemma User_workspaces_fresh:
  "fresh_get (User_workspaces E u) w (own_get (u_api u) (u_resrc u) (u_id u))"
  unfolding User_workspaces_def by (rule first_get) simp

lemma Task_parent_fresh:
  "fresh_get (Task_parent E t) w (own_get (t_api t) (t_resrc t) (t_id t))"
  unfolding Task_parent_def by (rule first_get) simp

lemma Task_workspace_fresh:
  "fresh_get (Task_workspace E t) w (own_get (t_api t) (t_resrc t) (t_id t))"
  unfolding Task_workspace_def by (rule first_get) simp

lemma Task_assignee_fresh:
  "fresh_get (Task_assignee E t) w (own_get (t_api t) (t_resrc t) (t_id t))"
  unfolding Task_assignee_def by (rule first_get) simp

lemma Task_followers_fresh:
  "fresh_get (Task_followers E t) w (own_get (t_api t) (t_resrc t) (t_id t))"
  unfolding Task_followers_def by (rule first_get) simp

lemma Task_projects_fresh:
  "fresh_get (Task_projects E t) w (own_get (t_api t) (t_resrc t) (t_id t))"
  unfolding Task_projects_def by (rule first_get) simp

lemma Task_tags_fresh:
  "fresh_get (Task_tags E t) w (sub_get (t_api t) (t_resrc t) (t_id t) ''/tags'')"
  unfolding Task_tags_def by (rule first_get) simp

lemma Task_subtasks_fresh:
  "fresh_get (Task_subtasks E t) w (sub_get (t_api t) (t_resrc t) (t_id t) ''/subtasks'')"
  unfolding Task_subtasks_def by (rule first_get) simp

lemma Task_comments_fresh:
  "fresh_get (Task_comments E t) w (sub_get (t_api t) (t_resrc t) (t_id t) ''/stories'')"
  unfolding Task_comments_def by (rule first_get) simp

lemma Workspace_users_fresh:
  "fresh_get (Workspace_users E x) w (sub_get (ws_api x) (ws_resrc x) (ws_id x) ''/users'')"
  unfolding Workspace_users_def by (rule first_get) simp

lemma Workspace_projects_fresh:
  "fresh_get (Workspace_projects E x) w
     (sub_get (ws_api x) (ws_resrc x) (ws_id x) ''/projects'')"
  unfolding Workspace_projects_def by (rule first_get) simp

lemma Workspace_tags_fresh:
  "fresh_get (Workspace_tags E x) w (sub_get (ws_api x) (ws_resrc x) (ws_id x) ''/tags'')"
  unfolding Workspace_tags_def by (rule first_get) simp

lemma Tag_followers_fresh:
  "fresh_get (Tag_followers E tg) w (own_get (tg_api tg) (tg_resrc tg) (tg_id tg))"
  unfolding Tag_followers_def by (rule first_get) simp

lemma Tag_tasks_fresh:
  "fresh_get (Tag_tasks E tg) w (sub_get (tg_api tg) (tg_resrc tg) (tg_id tg) ''/tasks'')"
  unfolding Tag_tasks_def by (rule first_get) simp

lemma Project_tasks_fresh:
  "fresh_get (Project_tasks E p) w (sub_get (pr_api p) (pr_resrc p) (pr_id p) ''/tasks'')"
  unfolding Project_tasks_def by (rule first_get) simp

lemma Project_followers_fresh:
  "fresh_get (Project_followers E p) w (own_get (pr_api p) (pr_resrc p) (pr_id p))"
  unfolding Project_followers_def by (rule first_get) simp

lemma Project_comments_fresh:
  "fresh_get (Project_comments E p) w (sub_get (pr_api p) (pr_resrc p) (pr_id p) ''/stories'')"
  unfolding Project_comments_def by (rule first_get) simp

lemma Story_created_by_fresh:
  "fresh_get (Story_created_by E s) w (own_get (st_api s) (st_resrc s) (st_id s))"
  unfolding Story_created_by_def by (rule first_get) simp

text \<open>
  The body shared by \<^verbatim>\<open>Tag.workspace\<close> and \<^verbatim>\<open>Project.workspace\<close> on a first access:
  the GET of the own record, then the Workspace constructor, which sends its own GET.
\<close>

lemma snd_Workspace_init:
  "snd (Workspace_init E a i w) = w @ [own_get a ''workspaces'' i]"
  unfolding Workspace_init_def by (simp add: snd_and_then_silent)

lemma workspace_of_record:
  assumes "and_then (get E a r e) (\<lambda>jr.
             and_then (of_result (get_key jr ''workspace'')) (\<lambda>x.
             and_then (of_result (get_key x ''id'')) (Workspace_init E a))) w = (res, w')"
  shows "(\<forall>ws. res = Inr ws \<longrightarrow>
            (\<exists>i. w' = w @ [own_get a r e, own_get a ''workspaces'' i]))
       \<and> (\<forall>err. res = Inl err \<longrightarrow> (\<exists>rest. w' = w @ own_get a r e # rest))"
proof -
  obtain g w1 where g: "get E a r e w = (g, w1)"
    by (cases "get E a r e w")
  with snd_get [of E a r e w] have w1: "w1 = w @ [own_get a r e]"
    by simp
  show ?thesis
  proof (cases g)
    case (Inl err)
    with assms g w1 show ?thesis
      by (auto simp: and_then_def)
  next
    case (Inr jr)
    show ?thesis
    proof (cases "get_key jr ''workspace''")
      case (Inl err)
      with assms g w1 \<open>g = Inr jr\<close> show ?thesis
        by (auto simp: and_then_def of_result_def)
    next
      case x: (Inr x)
      show ?thesis
      proof (cases "get_key x ''id''")
        case (Inl err)
        with assms g w1 \<open>g = Inr jr\<close> x show ?thesis
          by (auto simp: and_then_def of_result_def)
      next
        case i: (Inr i)
        with assms g \<open>g = Inr jr\<close> x have "Workspace_init E a i w1 = (res, w')"
          by (simp add: and_then_def of_result_def)
        with snd_Workspace_init [of E a i w1] have "w' = w1 @ [own_get a ''workspaces'' i]"
          by simp
        with w1 show ?thesis
          by auto
      qed
    qed
  qed
qed

lemma Tag_workspace_cached:
  "tg_workspace tg = Some c \<Longrightarrow> Tag_workspace E tg w = (Inr c, tg, w)"
  by (simp add: Tag_workspace_def)

lemma Project_workspace_cached:
  "pr_workspace p = Some c \<Longrightarrow> Project_workspace E p w = (Inr c, p, w)"
  by (simp add: Project_workspace_def)

lemma Tag_workspace_first:
  assumes "tg_workspace tg = None"
  shows "case Tag_workspace E tg w of
           (Inr ws, tg', w') \<Rightarrow>
              tg' = tg\<lparr>tg_workspace := Some ws\<rparr> \<and>
              (\<exists>i. w' = w @ [own_get (tg_api tg) (tg_resrc tg) (tg_id tg),
                             own_get (tg_api tg) ''workspaces'' i]) \<and>
              (\<forall>w''. Tag_workspace E tg' w'' = (Inr ws, tg', w''))
         | (Inl err, tg', w') \<Rightarrow>
              tg' = tg \<and>
              (\<exists>rest. w' = w @ own_get (tg_api tg) (tg_resrc tg) (tg_id tg) # rest)"
proof -
  obtain res w' where m: "and_then (get E (tg_api tg) (tg_resrc tg) (tg_id tg)) (\<lambda>jr.
             and_then (of_result (get_key jr ''workspace'')) (\<lambda>x.
             and_then (of_result (get_key x ''id'')) (Workspace_init E (tg_api tg)))) w
           = (res, w')"
    by (cases "and_then (get E (tg_api tg) (tg_resrc tg) (tg_id tg)) (\<lambda>jr.
             and_then (of_result (get_key jr ''workspace'')) (\<lambda>x.
             and_then (of_result (get_key x ''id'')) (Workspace_init E (tg_api tg)))) w")
  from workspace_of_record [OF m] assms m show ?thesis
    by (cases res) (simp_all add: Tag_workspace_def)
qed

lemma Project_workspace_first:
  assumes "pr_workspace p = None"
  shows "case Project_workspace E p w of
           (Inr ws, p', w') \<Rightarrow>
              p' = p\<lparr>pr_workspace := Some ws\<rparr> \<and>
              (\<exists>i. w' = w @ [own_get (pr_api p) (pr_resrc p) (pr_id p),
                             own_get (pr_api p) ''workspaces'' i]) \<and>
              (\<forall>w''. Project_workspace E p' w'' = (Inr ws, p', w''))
         | (Inl err, p', w') \<Rightarrow>
              p' = p \<and>
              (\<exists>rest. w' = w @ own_get (pr_api p) (pr_resrc p) (pr_id p) # rest)"
proof -
  obtain res w' where m: "and_then (get E (pr_api p) (pr_resrc p) (pr_id p)) (\<lambda>jr.
             and_then (of_result (get_key jr ''workspace'')) (\<lambda>x.
             and_then (of_result (get_key x ''id'')) (Workspace_init E (pr_api p)))) w
           = (res, w')"
    by (cases "and_then (get E (pr_api p) (pr_resrc p) (pr_id p)) (\<lambda>jr.
             and_then (of_result (get_key jr ''workspace'')) (\<lambda>x.
             and_then (of_result (get_key x ''id'')) (Workspace_init E (pr_api p)))) w")
  from workspace_of_record [OF m] assms m show ?thesis
    by (cases res) (simp_all add: Project_workspace_def)
qed

text \<open>
  C6, as the code has it. The first access of \<^verbatim>\<open>workspace\<close> on a Tag or a Project that
  returns has sent two GETs, the one of the own record and the one the Workspace
  constructor sends, and has stored the Workspace on the instance; every later access
  returns that stored object and sends nothing (and a first access that raises stores
  nothing). Every other relationship property starts with a GET of its own on every
  access, whatever the instance and the requests sent before.
\<close>

theorem workspace_memoized_others_refetch:
  "(tg_workspace tg = None \<longrightarrow>
      (case Tag_workspace E tg w of
         (Inr ws, tg', w') \<Rightarrow>
            tg' = tg\<lparr>tg_workspace := Some ws\<rparr> \<and>
            (\<exists>i. w' = w @ [own_get (tg_api tg) (tg_resrc tg) (tg_id tg),
                           own_get (tg_api tg) ''workspaces'' i]) \<and>
            (\<forall>w''. Tag_workspace E tg' w'' = (Inr ws, tg', w''))
       | (Inl err, tg', w') \<Rightarrow>
            tg' = tg \<and>
            (\<exists>rest. w' = w @ own_get (tg_api tg) (tg_resrc tg) (tg_id tg) # rest)))
   \<and> (tg_workspace tg = Some c \<longrightarrow> Tag_workspace E tg w = (Inr c, tg, w))
   \<and> (pr_workspace p = None \<longrightarrow>
      (case Project_workspace E p w of
         (Inr ws, p', w') \<Rightarrow>
            p' = p\<lparr>pr_workspace := Some ws\<rparr> \<and>
            (\<exists>i. w' = w @ [own_get (pr_api p) (pr_resrc p) (pr_id p),
                           own_get (pr_api p) ''workspaces'' i]) \<and>
            (\<forall>w''. Project_workspace E p' w'' = (Inr ws, p', w''))
       | (Inl err, p', w') \<Rightarrow>
            p' = p \<and>
            (\<exists>rest. w' = w @ own_get (pr_api p) (pr_resrc p) (pr_id p) # rest)))
   \<and> (pr_workspace p = Some c \<longrightarrow> Project_workspace E p w = (Inr c, p, w))
   \<and> fresh_get (User_workspaces E u) w (own_get (u_api u) (u_resrc u) (u_id u))
   \<and> fresh_get (Task_parent E t) w (own_get (t_api t) (t_resrc t) (t_id t))
   \<and> fresh_get (Task_workspace E t) w (own_get (t_api t) (t_resrc t) (t_id t))
   \<and> fresh_get (Task_assignee E t) w (own_get (t_api t) (t_resrc t) (t_id t))
   \<and> fresh_get (Task_followers E t) w (own_get (t_api t) (t_resrc t) (t_id t))
   \<and> fresh_get (Task_projects E t) w (own_get (t_api t) (t_resrc t) (t_id t))
   \<and> fresh_get (Task_tags E t) w (sub_get (t_api t) (t_resrc t) (t_id t) ''/tags'')
   \<and> fresh_get (Task_subtasks E t) w (sub_get (t_api t) (t_resrc t) (t_id t) ''/subtasks'')
   \<and> fresh_get (Task_comments E t) w (sub_get (t_api t) (t_resrc t) (t_id t) ''/stories'')
   \<and> fresh_get (Workspace_users E x) w (sub_get (ws_api x) (ws_resrc x) (ws_id x) ''/users'')
   \<and> fresh_get (Workspace_projects E x) w
        (sub_get (ws_api x) (ws_resrc x) (ws_id x) ''/projects'')
   \<and> fresh_get (Workspace_tags E x) w (sub_get (ws_api x) (ws_resrc x) (ws_id x) ''/tags'')
   \<and> fresh_get (Tag_followers E tg) w (own_get (tg_api tg) (tg_resrc tg) (tg_id tg))
   \<and> fresh_get (Tag_tasks E tg) w (sub_get (tg_api tg) (tg_resrc tg) (tg_id tg) ''/tasks'')
   \<and> fresh_get (Project_tasks E p) w (sub_get (pr_api p) (pr_resrc p) (pr_id p) ''/tasks'')
   \<and> fresh_get (Project_followers E p) w (own_get (pr_api p) (pr_resrc p) (pr_id p))
   \<and> fresh_get (Project_comments E p) w
        (sub_get (pr_api p) (pr_resrc p) (pr_id p) ''/stories'')
   \<and> fresh_get (Story_created_by E s) w (own_get (st_api s) (st_resrc s) (st_id s))"
  by (intro conjI impI Tag_workspace_first Project_workspace_first Tag_workspace_cached
      Project_workspace_cached User_workspaces_fresh Task_parent_fresh Task_workspace_fresh
      Task_assignee_fresh Task_followers_fresh Task_projects_fresh Task_tags_fresh
      Task_subtasks_fresh Task_comments_fresh Workspace_users_fresh Workspace_projects_fresh
      Workspace_tags_fresh Tag_followers_fresh Tag_tasks_fresh Project_tasks_fresh
      Project_followers_fresh Project_comments_fresh Story_created_by_fresh)

lemma send_r200: "send (always (r200 d)) rq w = (Inr d, w @ [rq])"
  by (simp add: send_def always_def r200_def check_http_status_def handle_response_def
      json_type_def index_def)

lemma py_str_3: "py_str (PInt 3) = ''3''"
  by (simp add: py_str_def str_int_def digits.simps digit_char_def)

lemma py_str_5: "py_str (PInt 5) = ''5''"
  by (simp add: py_str_def str_int_def digits.simps digit_char_def)

lemma py_str_7: "py_str (PInt 7) = ''7''"
  by (simp add: py_str_def str_int_def digits.simps digit_char_def)

lemma tag0_fields:
  "tg_api tag0 = api0" "tg_resrc tag0 = ''tags''" "tg_id tag0 = PInt 3"
  "tg_workspace tag0 = None"
  by (simp_all add: tag0_def)

lemma Tag_workspace_tag0:
  "Tag_workspace (always (r200 workspace_record)) tag0 [] =
     (Inr workspace0, tag0\<lparr>tg_workspace := Some workspace0\<rparr>,
      [own_get api0 ''tags'' (PInt 3), own_get api0 ''workspaces'' (PInt 5)])"
  by (simp add: Tag_workspace_def tag0_fields and_then_def get_def send_r200 of_result_def
      workspace_record_def Workspace_init_def ok_def workspace0_def)

theorem workspace_memoized_others_refetch_witness:
  "tg_workspace tag0 = None
   \<and> (\<exists>i. snd (snd (Tag_workspace (always (r200 workspace_record)) tag0 [])) =
          [own_get api0 ''tags'' (PInt 3), own_get api0 ''workspaces'' i])
   \<and> (\<forall>w''. Tag_workspace (always (r200 workspace_record))
              (tag0\<lparr>tg_workspace := Some workspace0\<rparr>) w'' =
            (Inr workspace0, tag0\<lparr>tg_workspace := Some workspace0\<rparr>, w''))"
proof -
  have none: "tg_workspace tag0 = None"
    by (simp add: tag0_fields)
  note first = workspace_memoized_others_refetch
    [where tg = tag0 and E = "always (r200 workspace_record)" and w = "[]",
     THEN conjunct1, THEN mp, OF none]
  from first none show ?thesis
    by (simp add: Tag_workspace_tag0 tag0_fields)
qed

text \<open>
  The claim as stated fails on the number of requests: the first access of
  \<^verbatim>\<open>Tag.workspace\<close> sends two GETs, not one.
\<close>

theorem first_workspace_access_sends_two_gets:
  "tg_workspace tag0 = None
   \<and> snd (snd (Tag_workspace (always (r200 workspace_record)) tag0 [])) =
       [\<lparr> rq_method = GET, rq_url = ''https://app.asana.com/api/1.0/tags/3'',
          rq_auth = (''key'', []), rq_data = None \<rparr>,
        \<lparr> rq_method = GET, rq_url = ''https://app.asana.com/api/1.0/workspaces/5'',
          rq_auth = (''key'', []), rq_data = None \<rparr>]"
  by (simp add: Tag_workspace_tag0 tag0_fields request_of_def target_def api0_def
      AsanaClient_init_def py_str_3 py_str_5)

text \<open>
  C4. Each relationship property does send a GET of its own on an access (see the
  theorem for C6), but two of them wrap the records in the wrong class: with a parent
  in the task's record, \<^verbatim>\<open>Task.parent\<close> fetches \<^verbatim>\<open>users/<parent id>\<close> and returns a
  User; and \<^verbatim>\<open>Tag.tasks\<close>, which would build Tag objects, first subscripts the list of
  task records it was sent with \<^verbatim>\<open>'tasks'\<close>, a \<^verbatim>\<open>TypeError\<close>. And a record without the
  key \<^verbatim>\<open>parent\<close> makes \<^verbatim>\<open>Task.parent\<close> raise \<^verbatim>\<open>KeyError\<close>.
\<close>

theorem parent_is_a_User_and_tag_tasks_raises:
  "Task_parent (always (r200 parent_record)) task0 [] =
     (Inr (Some user0),
      [own_get api0 ''tasks'' (PInt 1), own_get api0 ''users'' (PInt 7)])
   \<and> rq_url (own_get api0 ''users'' (PInt 7)) = ''https://app.asana.com/api/1.0/users/7''
   \<and> Tag_tasks (always (r200 (PList [PDict [(''id'', PInt 1)]]))) tag0 [] =
     (Inl TypeError, [sub_get api0 ''tags'' (PInt 3) ''/tasks''])
   \<and> Task_parent (always (r200 (PDict [(''id'', PInt 1)]))) task0 [] =
     (Inl KeyError, [own_get api0 ''tasks'' (PInt 1)])"
  by (simp add: Task_parent_def Tag_tasks_def task0_fields tag0_fields and_then_def get_def
      send_r200 of_result_def parent_record_def User_init_def ok_def user0_def
      request_of_def target_def api0_def AsanaClient_init_def py_str_7)

end
